theory Spec2Isabelle
  imports Complex_Main "HOL-Library.AList" "HOL-Library.Multiset"
    "HOL-Library.List_Lexorder" "HOL-Library.Char_ord"
begin

section \<open>Values of the program\<close>

text \<open>
  The development follows \<^verbatim>\<open>torch_frame/data/dataset.py\<close>. The class \<^verbatim>\<open>Dataset\<close> keeps a
  pandas data frame, a dictionary from column names to semantic types, an optional target
  column and, once materialized, column statistics and a tensor frame. Modelled are the
  constructor, \<^verbatim>\<open>__len__\<close>, \<^verbatim>\<open>feat_cols\<close>, \<^verbatim>\<open>materialize\<close> with \<^verbatim>\<open>_to_tensor_frame\<close>, the guards and
  the guarded properties, \<^verbatim>\<open>index_select\<close> and \<^verbatim>\<open>col_select\<close>; \<^verbatim>\<open>download_url\<close>, \<^verbatim>\<open>__repr__\<close>,
  \<^verbatim>\<open>__getitem__\<close> and \<^verbatim>\<open>shuffle\<close> (which draws a random permutation) are not.

  \<^verbatim>\<open>torch_frame.stype\<close> is an enumeration declared outside the given sources. The source
  names its members \<^verbatim>\<open>numerical\<close> and \<^verbatim>\<open>categorical\<close>; \<open>other_stype v\<close> stands for any further
  member, \<open>v\<close> being its \<^verbatim>\<open>.value\<close>.
\<close>

datatype stype = numerical | categorical | other_stype string

text \<open>
  \<^verbatim>\<open>StatType\<close> (torch_frame.data.stats) is not among the sources either; only its member
  \<^verbatim>\<open>COUNT\<close> is named in dataset.py. A statistic is either the pair \<^verbatim>\<open>(index, value)\<close> that
  dataset.py unpacks for \<^verbatim>\<open>COUNT\<close>, or a number.
\<close>

datatype StatType = MEAN | STD | COUNT

datatype 'v stat_value = Tuple "'v list" "nat list" | Scalar rat

type_synonym 'v col_stats = "(StatType \<times> 'v stat_value) list"

text \<open>
  Exceptions are values. The two \<^verbatim>\<open>RuntimeError\<close>s of the guards carry the name of the guarded
  function, the \<^verbatim>\<open>ValueError\<close> of the constructor carries the set \<^verbatim>\<open>missing_cols\<close> that its
  message prints, \<^verbatim>\<open>NotImplementedError\<close> carries \<^verbatim>\<open>stype.value\<close>. \<open>DanglingReference\<close> is
  what the model answers for an address that holds no object; Python has no such case.
\<close>

datatype error =
    RuntimeError_post_materialization string
  | RuntimeError_requires_materialized string
  | ValueError_missing_cols "string set"
  | ValueError
  | NotImplementedError string
  | KeyError
  | IndexError
  | TypeError
  | RuntimeError_stack
  | DanglingReference

subsection \<open>Lists, dictionaries, slices\<close>

text \<open>\<^verbatim>\<open>xs.index(x)\<close> for an \<open>x\<close> that occurs in \<open>xs\<close>: the first position.\<close>

fun index_of :: "'a \<Rightarrow> 'a list \<Rightarrow> nat" where
  "index_of x [] = 0"
| "index_of x (z # zs) = (if z = x then 0 else Suc (index_of x zs))"

text \<open>
  A dictionary is an association list with distinct keys, in insertion order.
  \<^verbatim>\<open>d[k] = v\<close> is \<^const>\<open>AList.update\<close>: it replaces the value of a key in place and puts a
  new key last. \<open>dd_append\<close> is \<^verbatim>\<open>d[k].append(v)\<close> on a \<^verbatim>\<open>defaultdict(list)\<close>.
\<close>

definition dd_append :: "('k \<times> 'a list) list \<Rightarrow> 'k \<Rightarrow> 'a \<Rightarrow> ('k \<times> 'a list) list" where
  "dd_append d k v =
     (case map_of d k of
        None \<Rightarrow> d @ [(k, [v])]
      | Some l \<Rightarrow> AList.update k (l @ [v]) d)"

text \<open>
  A row selector after \<^verbatim>\<open>index_select\<close> has normalised its argument: a sequence of integer
  positions (a list, or the entries of an index tensor), or a slice with integer bounds.
\<close>

datatype selector = Positions "int list" | Slice "int option" "int option" "int option"

text \<open>A position \<open>i\<close> of a sequence of length \<open>n\<close>; negative positions count from the end.\<close>

definition in_bounds :: "nat \<Rightarrow> int \<Rightarrow> bool" where
  "in_bounds n i = (- int n \<le> i \<and> i < int n)"

definition wrap_index :: "nat \<Rightarrow> int \<Rightarrow> nat" where
  "wrap_index n i = nat (if i < 0 then i + int n else i)"

text \<open>
  \<^verbatim>\<open>slice(start, stop, step).indices(n)\<close> followed by \<^verbatim>\<open>range\<close>: the positions a slice selects
  from a sequence of length \<open>n\<close>. A zero step raises \<^verbatim>\<open>ValueError\<close>.
\<close>

definition slice_positions :: "int option \<Rightarrow> int option \<Rightarrow> int option \<Rightarrow> nat \<Rightarrow> error + nat list" where
  "slice_positions start stop step len =
     (let n = int len;
          st = (case step of None \<Rightarrow> 1 | Some s \<Rightarrow> s)
      in if st = 0 then Inl ValueError
         else
           let lower = (if st < 0 then - 1 else 0);
               upper = (if st < 0 then n - 1 else n);
               b = (case start of
                      None \<Rightarrow> (if st < 0 then upper else lower)
                    | Some s \<Rightarrow> (if s < 0 then max (s + n) lower else min s upper));
               e = (case stop of
                      None \<Rightarrow> (if st < 0 then lower else upper)
                    | Some s \<Rightarrow> (if s < 0 then max (s + n) lower else min s upper));
               cnt = (if 0 < st
                      then (if b < e then (e - b - 1) div st + 1 else 0)
                      else (if e < b then (b - e - 1) div (- st) + 1 else 0))
           in Inr (map (\<lambda>k. nat (b + int k * st)) [0..<nat cnt]))"

text \<open>
  Positional selection from a sequence, as \<^verbatim>\<open>DataFrame.iloc\<close> and tensor indexing do it:
  a position out of bounds raises \<^verbatim>\<open>IndexError\<close>, a slice is clamped.
\<close>

definition select_rows :: "'a list \<Rightarrow> selector \<Rightarrow> error + 'a list" where
  "select_rows xs sel =
     (case sel of
        Positions ps \<Rightarrow>
          (if list_all (in_bounds (length xs)) ps
           then Inr (map (\<lambda>i. xs ! wrap_index (length xs) i) ps)
           else Inl IndexError)
      | Slice start stop step \<Rightarrow>
          (case slice_positions start stop step (length xs) of
             Inl e \<Rightarrow> Inl e
           | Inr ps \<Rightarrow> Inr (map (\<lambda>i. xs ! i) ps)))"

text \<open>
  A Python \<^verbatim>\<open>float\<close> is modelled by the rational it denotes; \<^verbatim>\<open>round(x)\<close> with one
  argument rounds to the nearest integer, a tie to the even one.
\<close>

definition py_round :: "rat \<Rightarrow> int" where
  "py_round x =
     (let f = \<lfloor>x\<rfloor>; d = x - of_int f
      in if d < 1 / 2 then f
         else if 1 / 2 < d then f + 1
         else if even f then f else f + 1)"

subsection \<open>The data frame\<close>

text \<open>
  A pandas \<^verbatim>\<open>DataFrame\<close>: its column labels and its rows, each row a list of cells in the order
  of the labels. \<^verbatim>\<open>len(df)\<close> is the number of rows, \<^verbatim>\<open>df[col]\<close> a column, \<^verbatim>\<open>df[cols]\<close> the
  projection on a list of labels (a label that is no column raises \<^verbatim>\<open>KeyError\<close>),
  \<^verbatim>\<open>df.iloc[sel]\<close> the selection of rows by position. dataset.py never changes a data
  frame in place, so a data frame is a value here. For a label that occurs twice, \<^verbatim>\<open>df[col]\<close>
  is taken to be the first column with that label.
\<close>

record 'v DataFrame =
  columns :: "string list"
  rows :: "'v list list"

definition df_len :: "'v DataFrame \<Rightarrow> nat" where
  "df_len frame = length (rows frame)"

definition df_getitem :: "'v DataFrame \<Rightarrow> string \<Rightarrow> error + 'v list" where
  "df_getitem frame col =
     (if col \<in> set (columns frame)
      then Inr (map (\<lambda>r. r ! index_of col (columns frame)) (rows frame))
      else Inl KeyError)"

definition df_getitem_list :: "'v DataFrame \<Rightarrow> string list \<Rightarrow> error + 'v DataFrame" where
  "df_getitem_list frame cols =
     (if list_all (\<lambda>c. c \<in> set (columns frame)) cols
      then Inr \<lparr>columns = cols,
                rows = map (\<lambda>r. map (\<lambda>c. r ! index_of c (columns frame)) cols) (rows frame)\<rparr>
      else Inl KeyError)"

definition df_iloc :: "'v DataFrame \<Rightarrow> selector \<Rightarrow> error + 'v DataFrame" where
  "df_iloc frame sel =
     (case select_rows (rows frame) sel of
        Inl e \<Rightarrow> Inl e
      | Inr rs \<Rightarrow> Inr \<lparr>columns = columns frame, rows = rs\<rparr>)"

text \<open>
  \<^verbatim>\<open>pd.Series(index=index, data=value).sort_index()\<close>, read back as two lists: the pairs
  sorted by label. A data list whose length differs from the index's raises \<^verbatim>\<open>ValueError\<close>.
  The labels are of a linearly ordered type; for strings the order is the lexicographic one
  (of \<^verbatim>\<open>HOL-Library.List_Lexorder\<close>, on characters ordered by their code).
\<close>

definition sort_index :: "('v::linorder) list \<Rightarrow> nat list \<Rightarrow> error + ('v list \<times> nat list)" where
  "sort_index index value =
     (if length value = length index
      then (let ser = sort_key fst (zip index value) in Inr (map fst ser, map snd ser))
      else Inl ValueError)"

subsection \<open>Tensor mappers and the tensor frame\<close>

text \<open>
  Modelled from the spec: the tensor mappers (torch_frame.data.mapper) are not among the
  sources. The spec's numerical mapper is a direct numeric cast to a floating tensor; its
  categorical mapper looks up each raw value's position in the category sequence it was
  constructed from and maps an unseen value to a reserved missing index. A tensor with one
  axis is the list of its entries; \<open>Float_of v\<close> is the cast of the raw value \<open>v\<close>. The
  \<^verbatim>\<open>device\<close> argument places the tensor and is not modelled.
\<close>

datatype 'v cell = Float_of 'v | Category nat | Missing

datatype 'v mapper = NumericalTensorMapper | CategoricalTensorMapper "'v list"

fun forward :: "'v mapper \<Rightarrow> 'v list \<Rightarrow> 'v cell list" where
  "forward NumericalTensorMapper ser = map Float_of ser"
| "forward (CategoricalTensorMapper categories) ser =
     map (\<lambda>v. if v \<in> set categories then Category (index_of v categories) else Missing) ser"

text \<open>Mapping a function that may raise over a list stops at the first exception.\<close>

fun map_result :: "('a \<Rightarrow> error + 'b) \<Rightarrow> 'a list \<Rightarrow> error + 'b list" where
  "map_result f [] = Inr []"
| "map_result f (x # xs) =
     (case f x of
        Inl e \<Rightarrow> Inl e
      | Inr v \<Rightarrow> (case map_result f xs of Inl e \<Rightarrow> Inl e | Inr vs \<Rightarrow> Inr (v # vs)))"

text \<open>
  \<^verbatim>\<open>torch.stack(xs, dim=1)\<close> of tensors with one axis: the tensor whose column \<open>j\<close> is
  \<open>xs ! j\<close>, kept as the list of its columns. It raises for an empty list and for tensors
  of different sizes.
\<close>

definition stack :: "'a list list \<Rightarrow> error + 'a list list" where
  "stack xs =
     (if xs \<noteq> [] \<and> list_all (\<lambda>x. length x = length (hd xs)) xs
      then Inr xs else Inl RuntimeError_stack)"

text \<open>
  Modelled from the spec: \<^verbatim>\<open>TensorFrame\<close> (torch_frame.data) is not among the sources. The
  spec's tensor bundle holds one stacked feature tensor per semantic type, the column names
  stacked into it, and an optional target tensor; indexing it slices every feature tensor
  and the target tensor along the row axis with the same index set, in the same order.
  The field \<open>tf_y\<close> is the constructor's argument \<^verbatim>\<open>y\<close>.
\<close>

record 'v TensorFrame =
  x_dict :: "(stype \<times> 'v cell list list) list"
  col_names_dict :: "(stype \<times> string list) list"
  tf_y :: "'v cell list option"

definition tf_getitem :: "'v TensorFrame \<Rightarrow> selector \<Rightarrow> error + 'v TensorFrame" where
  "tf_getitem tf sel =
     (case map_result
             (\<lambda>(st, x). case map_result (\<lambda>c. select_rows c sel) x of
                           Inl e \<Rightarrow> Inl e
                         | Inr x' \<Rightarrow> Inr (st, x'))
             (x_dict tf) of
        Inl e \<Rightarrow> Inl e
      | Inr xd \<Rightarrow>
          (case tf_y tf of
             None \<Rightarrow> Inr \<lparr>x_dict = xd, col_names_dict = col_names_dict tf, tf_y = None\<rparr>
           | Some t \<Rightarrow>
               (case select_rows t sel of
                  Inl e \<Rightarrow> Inl e
                | Inr t' \<Rightarrow>
                    Inr \<lparr>x_dict = xd, col_names_dict = col_names_dict tf, tf_y = Some t'\<rparr>)))"

text \<open>
  Modelled from the spec: \<^verbatim>\<open>compute_col_stats\<close> (torch_frame.data.stats) is not among the
  sources; the functions of dataset.py below take it as the argument \<open>compute_col_stats\<close>.
  This is the calculator the spec describes, used where a concrete one is needed: for a
  categorical column the pair of the distinct categories and their counts, sorted by
  descending frequency (categories of equal frequency in the order of their first
  occurrence); for a numerical column the summaries \<open>numerical_stats\<close> computes; for any
  other semantic type the spec's UnsupportedSemanticType error.
\<close>

definition value_counts :: "'v list \<Rightarrow> 'v list \<times> nat list" where
  "value_counts ser =
     (let counted = map (\<lambda>c. (c, count_list ser c)) (rev (remdups (rev ser)));
          ordered = sort_key (\<lambda>p. - int (snd p)) counted
      in (map fst ordered, map snd ordered))"

definition spec_compute_col_stats ::
    "('v list \<Rightarrow> 'v col_stats) \<Rightarrow> 'v list \<Rightarrow> stype \<Rightarrow> error + 'v col_stats" where
  "spec_compute_col_stats numerical_stats ser st =
     (case st of
        numerical \<Rightarrow> Inr (numerical_stats ser)
      | categorical \<Rightarrow> Inr [(COUNT, Tuple (fst (value_counts ser)) (snd (value_counts ser)))]
      | other_stype v \<Rightarrow> Inl (NotImplementedError v))"

section \<open>The object store\<close>

text \<open>
  Python objects that dataset.py changes in place, or shares between two \<^verbatim>\<open>Dataset\<close>s, live
  in a store: an object is named by its address, the position in the list of the objects
  of its class, and a new object is put last. The attributes of a \<^verbatim>\<open>Dataset\<close> that hold a
  dictionary hold its address. The private attributes \<^verbatim>\<open>_is_materialized\<close>, \<^verbatim>\<open>_col_stats\<close> and
  \<^verbatim>\<open>_tensor_frame\<close> are the fields with the suffix \<open>attr\<close>.
\<close>

type_synonym addr = nat

record 'v Dataset =
  df :: "'v DataFrame"
  col_to_stype :: addr
  target_col :: "string option"
  is_materialized_attr :: bool
  col_stats_attr :: addr
  tensor_frame_attr :: "'v TensorFrame option"

record 'v heap =
  datasets :: "'v Dataset list"
  stype_dicts :: "(string \<times> stype) list list"
  stats_dicts :: "(string \<times> 'v col_stats) list list"
  str_lists :: "string list list"

definition deref :: "'a list \<Rightarrow> addr \<Rightarrow> 'a option" where
  "deref objs a = (if a < length objs then Some (objs ! a) else None)"

text \<open>\<^verbatim>\<open>copy.copy(self)\<close>: a new \<^verbatim>\<open>Dataset\<close> object with the attribute values of \<open>d\<close>.\<close>

definition copy_dataset :: "'v heap \<Rightarrow> 'v Dataset \<Rightarrow> addr \<times> 'v heap" where
  "copy_dataset h d = (length (datasets h), h\<lparr>datasets := datasets h @ [d]\<rparr>)"

text \<open>Assignment to attributes of the \<^verbatim>\<open>Dataset\<close> at an address.\<close>

definition update_dataset :: "'v heap \<Rightarrow> addr \<Rightarrow> ('v Dataset \<Rightarrow> 'v Dataset) \<Rightarrow> 'v heap" where
  "update_dataset h a f = h\<lparr>datasets := (datasets h)[a := f (datasets h ! a)]\<rparr>"

text \<open>\<^verbatim>\<open>stats[col] = cs\<close> on the statistics dictionary at an address.\<close>

definition stats_setitem :: "'v heap \<Rightarrow> addr \<Rightarrow> string \<Rightarrow> 'v col_stats \<Rightarrow> 'v heap" where
  "stats_setitem h p col cs =
     h\<lparr>stats_dicts := (stats_dicts h)[p := AList.update col cs (stats_dicts h ! p)]\<rparr>"

section \<open>The class \<^verbatim>\<open>Dataset\<close>\<close>

text \<open>
  A method takes the store and the address \<open>self\<close>, and returns its result, or the exception
  it raises, with the store as the call leaves it.
\<close>

subsection \<open>The guards\<close>

text \<open>
  The decorators \<^verbatim>\<open>requires_pre_materialization\<close> and \<^verbatim>\<open>requires_post_materialization\<close>
  wrap a method \<open>func\<close> named \<open>name\<close>.
\<close>

definition is_materialized :: "'v heap \<Rightarrow> addr \<Rightarrow> bool" where
  "is_materialized h self =
     (case deref (datasets h) self of None \<Rightarrow> False | Some d \<Rightarrow> is_materialized_attr d)"

definition requires_pre_materialization ::
    "string \<Rightarrow> ('v heap \<Rightarrow> addr \<Rightarrow> 'x \<Rightarrow> (error + 'r) \<times> 'v heap)
       \<Rightarrow> 'v heap \<Rightarrow> addr \<Rightarrow> 'x \<Rightarrow> (error + 'r) \<times> 'v heap" where
  "requires_pre_materialization name func h self args =
     (if is_materialized h self
      then (Inl (RuntimeError_post_materialization name), h)
      else func h self args)"

definition requires_post_materialization ::
    "string \<Rightarrow> ('v heap \<Rightarrow> addr \<Rightarrow> 'x \<Rightarrow> (error + 'r) \<times> 'v heap)
       \<Rightarrow> 'v heap \<Rightarrow> addr \<Rightarrow> 'x \<Rightarrow> (error + 'r) \<times> 'v heap" where
  "requires_post_materialization name func h self args =
     (if \<not> is_materialized h self
      then (Inl (RuntimeError_requires_materialized name), h)
      else func h self args)"

subsection \<open>Construction\<close>

text \<open>
  The property \<^verbatim>\<open>feat_cols\<close>, read from the attributes \<open>d\<close> of \<^verbatim>\<open>self\<close>: the keys of
  \<^verbatim>\<open>col_to_stype\<close> without the target column. \<^verbatim>\<open>cols.remove(x)\<close> raises \<^verbatim>\<open>ValueError\<close> when
  \<open>x\<close> is not in the list.
\<close>

definition feat_cols :: "'v heap \<Rightarrow> 'v Dataset \<Rightarrow> error + string list" where
  "feat_cols h d =
     (case deref (stype_dicts h) (col_to_stype d) of
        None \<Rightarrow> Inl DanglingReference
      | Some cts \<Rightarrow>
          (let cols = map fst cts
           in case target_col d of
                None \<Rightarrow> Inr cols
              | Some t \<Rightarrow> (if t \<in> set cols then Inr (remove1 t cols) else Inl ValueError)))"

text \<open>
  \<^verbatim>\<open>Dataset.__init__(df, col_to_stype, target_col)\<close>; \<open>col_to_stype\<close> is the address of the
  caller's dictionary. The object under construction enters the store when \<^verbatim>\<open>__init__\<close>
  returns; when it raises, no reference to the object exists and the store is as before.
\<close>

definition Dataset_init ::
    "'v heap \<Rightarrow> 'v DataFrame \<Rightarrow> addr \<Rightarrow> string option \<Rightarrow> (error + addr) \<times> 'v heap" where
  "Dataset_init h frame cts target =
     (let self = \<lparr>df = frame, col_to_stype = cts, target_col = target,
                  is_materialized_attr = False,
                  col_stats_attr = length (stats_dicts h),
                  tensor_frame_attr = None\<rparr>
      in case feat_cols h self of
           Inl e \<Rightarrow> (Inl e, h)
         | Inr fc \<Rightarrow>
             (let cols = fc @ (case target of None \<Rightarrow> [] | Some t \<Rightarrow> [t]);
                  missing_cols = set cols - set (columns frame)
              in if missing_cols \<noteq> {}
                 then (Inl (ValueError_missing_cols missing_cols), h)
                 else (Inr (length (datasets h)),
                       h\<lparr>datasets := datasets h @ [self],
                         stats_dicts := stats_dicts h @ [[]]\<rparr>)))"

text \<open>\<^verbatim>\<open>__len__\<close>.\<close>

definition len :: "'v heap \<Rightarrow> addr \<Rightarrow> nat" where
  "len h self = (case deref (datasets h) self of None \<Rightarrow> 0 | Some d \<Rightarrow> df_len (df d))"

subsection \<open>Materialization\<close>

text \<open>
  Step 1 of \<^verbatim>\<open>materialize\<close>: the loop over \<^verbatim>\<open>self.col_to_stype.items()\<close> that fills the
  dictionary \<^verbatim>\<open>self._col_stats\<close> (at the address \<open>p\<close>) from the data frame \<open>frame\<close>.
\<close>

fun fill_col_stats ::
    "('v list \<Rightarrow> stype \<Rightarrow> error + 'v col_stats) \<Rightarrow> 'v DataFrame \<Rightarrow> addr
       \<Rightarrow> (string \<times> stype) list \<Rightarrow> 'v heap \<Rightarrow> (error + unit) \<times> 'v heap" where
  "fill_col_stats compute_col_stats frame p [] h = (Inr (), h)"
| "fill_col_stats compute_col_stats frame p ((col, st) # items) h =
     (case df_getitem frame col of
        Inl e \<Rightarrow> (Inl e, h)
      | Inr ser \<Rightarrow>
          (case compute_col_stats ser st of
             Inl e \<Rightarrow> (Inl e, h)
           | Inr cs \<Rightarrow>
               fill_col_stats compute_col_stats frame p items (stats_setitem h p col cs)))"

text \<open>
  The branch on the semantic type in the loop of \<^verbatim>\<open>_to_tensor_frame\<close>: it chooses the
  mapper of the column and, for the target column with two categories, sorts the categories
  and writes them back to \<^verbatim>\<open>self._col_stats[col][StatType.COUNT]\<close>. A missing key raises
  \<^verbatim>\<open>KeyError\<close>, unpacking a number raises \<^verbatim>\<open>TypeError\<close>. The dictionary of one column's
  statistics is referenced from \<^verbatim>\<open>self._col_stats\<close> only, so it is a value inside it.
\<close>

definition select_mapper ::
    "('v::linorder) Dataset \<Rightarrow> string \<Rightarrow> stype \<Rightarrow> 'v heap \<Rightarrow> (error + 'v mapper) \<times> 'v heap" where
  "select_mapper d col st h =
     (case st of
        numerical \<Rightarrow> (Inr NumericalTensorMapper, h)
      | categorical \<Rightarrow>
          (case deref (stats_dicts h) (col_stats_attr d) of
             None \<Rightarrow> (Inl DanglingReference, h)
           | Some stats \<Rightarrow>
               (case map_of stats col of
                  None \<Rightarrow> (Inl KeyError, h)
                | Some cs \<Rightarrow>
                    (case map_of cs COUNT of
                       None \<Rightarrow> (Inl KeyError, h)
                     | Some (Scalar x) \<Rightarrow> (Inl TypeError, h)
                     | Some (Tuple index value) \<Rightarrow>
                         (if Some col = target_col d \<and> length index = 2
                          then (case sort_index index value of
                                  Inl e \<Rightarrow> (Inl e, h)
                                | Inr (index', value') \<Rightarrow>
                                    (Inr (CategoricalTensorMapper index'),
                                     stats_setitem h (col_stats_attr d) col
                                       (AList.update COUNT (Tuple index' value') cs)))
                          else (Inr (CategoricalTensorMapper index), h)))))
      | other_stype v \<Rightarrow> (Inl (NotImplementedError v), h))"

text \<open>The local variables \<^verbatim>\<open>xs_dict\<close>, \<^verbatim>\<open>col_names_dict\<close> and \<^verbatim>\<open>y\<close> of \<^verbatim>\<open>_to_tensor_frame\<close>.\<close>

record 'v locals =
  xs_dict :: "(stype \<times> 'v cell list list) list"
  names_dict :: "(stype \<times> string list) list"
  y_local :: "'v cell list option"

fun to_tensor_frame_loop ::
    "('v::linorder) Dataset \<Rightarrow> (string \<times> stype) list \<Rightarrow> 'v locals \<Rightarrow> 'v heap
       \<Rightarrow> (error + 'v locals) \<times> 'v heap" where
  "to_tensor_frame_loop d [] s h = (Inr s, h)"
| "to_tensor_frame_loop d ((col, st) # items) s h =
     (case select_mapper d col st h of
        (Inl e, h') \<Rightarrow> (Inl e, h')
      | (Inr mapper, h') \<Rightarrow>
          (case df_getitem (df d) col of
             Inl e \<Rightarrow> (Inl e, h')
           | Inr ser \<Rightarrow>
               (let out = forward mapper ser
                in if Some col = target_col d
                   then to_tensor_frame_loop d items (s\<lparr>y_local := Some out\<rparr>) h'
                   else to_tensor_frame_loop d items
                          (s\<lparr>xs_dict := dd_append (xs_dict s) st out,
                             names_dict := dd_append (names_dict s) st col\<rparr>) h')))"

text \<open>\<^verbatim>\<open>_to_tensor_frame\<close>.\<close>

definition to_tensor_frame ::
    "('v::linorder) heap \<Rightarrow> addr \<Rightarrow> (error + 'v TensorFrame) \<times> 'v heap" where
  "to_tensor_frame h self =
     (case deref (datasets h) self of
        None \<Rightarrow> (Inl DanglingReference, h)
      | Some d \<Rightarrow>
          (case deref (stype_dicts h) (col_to_stype d) of
             None \<Rightarrow> (Inl DanglingReference, h)
           | Some items \<Rightarrow>
               (case to_tensor_frame_loop d items
                       \<lparr>xs_dict = [], names_dict = [], y_local = None\<rparr> h of
                  (Inl e, h') \<Rightarrow> (Inl e, h')
                | (Inr s, h') \<Rightarrow>
                    (case map_result
                            (\<lambda>(st, xs). case stack xs of
                                           Inl e \<Rightarrow> Inl e
                                         | Inr x \<Rightarrow> Inr (st, x))
                            (xs_dict s) of
                       Inl e \<Rightarrow> (Inl e, h')
                     | Inr xd \<Rightarrow>
                         (Inr \<lparr>x_dict = xd, col_names_dict = names_dict s,
                               tf_y = y_local s\<rparr>, h')))))"

text \<open>
  \<^verbatim>\<open>materialize\<close>; the collaborator \<^verbatim>\<open>compute_col_stats\<close> is its first argument, the
  \<^verbatim>\<open>device\<close> is not modelled. It returns \<^verbatim>\<open>self\<close>.
\<close>

definition materialize ::
    "('v list \<Rightarrow> stype \<Rightarrow> error + 'v col_stats) \<Rightarrow> ('v::linorder) heap \<Rightarrow> addr
       \<Rightarrow> (error + addr) \<times> 'v heap" where
  "materialize compute_col_stats h self =
     (case deref (datasets h) self of
        None \<Rightarrow> (Inl DanglingReference, h)
      | Some d \<Rightarrow>
          (if is_materialized h self then (Inr self, h)
           else (case deref (stype_dicts h) (col_to_stype d) of
                   None \<Rightarrow> (Inl DanglingReference, h)
                 | Some items \<Rightarrow>
                     (case fill_col_stats compute_col_stats (df d) (col_stats_attr d) items h of
                        (Inl e, h1) \<Rightarrow> (Inl e, h1)
                      | (Inr u, h1) \<Rightarrow>
                          (case to_tensor_frame h1 self of
                             (Inl e, h2) \<Rightarrow> (Inl e, h2)
                           | (Inr tf, h2) \<Rightarrow>
                               (Inr self,
                                update_dataset
                                  (update_dataset h2 self (\<lambda>d. d\<lparr>tensor_frame_attr := Some tf\<rparr>))
                                  self (\<lambda>d. d\<lparr>is_materialized_attr := True\<rparr>)))))))"

text \<open>The properties \<^verbatim>\<open>tensor_frame\<close> and \<^verbatim>\<open>col_stats\<close>, behind their guard.\<close>

definition tensor_frame :: "'v heap \<Rightarrow> addr \<Rightarrow> (error + 'v TensorFrame option) \<times> 'v heap" where
  "tensor_frame h self =
     requires_post_materialization ''tensor_frame''
       (\<lambda>h self u. (case deref (datasets h) self of
                       None \<Rightarrow> (Inl DanglingReference, h)
                     | Some d \<Rightarrow> (Inr (tensor_frame_attr d), h)))
       h self ()"

definition col_stats :: "'v heap \<Rightarrow> addr \<Rightarrow> (error + addr) \<times> 'v heap" where
  "col_stats h self =
     requires_post_materialization ''col_stats''
       (\<lambda>h self u. (case deref (datasets h) self of
                       None \<Rightarrow> (Inl DanglingReference, h)
                     | Some d \<Rightarrow> (Inr (col_stats_attr d), h)))
       h self ()"

subsection \<open>Row selection\<close>

text \<open>
  The argument of \<^verbatim>\<open>index_select\<close>: an \<^verbatim>\<open>int\<close>, a list of \<^verbatim>\<open>int\<close>, an index tensor (its
  entries), or a slice whose start and stop are \<^verbatim>\<open>None\<close>, an \<^verbatim>\<open>int\<close> or a \<^verbatim>\<open>float\<close>.
\<close>

datatype bound = Int_bound int | Float_bound rat

datatype index =
    Int_index int
  | List_index "int list"
  | Tensor_index "int list"
  | Slice_index "bound option" "bound option" "int option"

text \<open>A slice bound of a data set with \<open>n\<close> rows: a \<^verbatim>\<open>float\<close> becomes \<^verbatim>\<open>round(bound * n)\<close>.\<close>

definition resolve_bound :: "nat \<Rightarrow> bound option \<Rightarrow> int option" where
  "resolve_bound n b =
     (case b of
        None \<Rightarrow> None
      | Some (Int_bound i) \<Rightarrow> Some i
      | Some (Float_bound x) \<Rightarrow> Some (py_round (x * of_nat n)))"

text \<open>
  The first statement of \<^verbatim>\<open>index_select\<close>: an \<^verbatim>\<open>int\<close> is wrapped into a list, the bounds of
  a slice are resolved; with it, \<^verbatim>\<open>index.cpu().numpy()\<close> for a tensor.
\<close>

definition normalize_index :: "nat \<Rightarrow> index \<Rightarrow> selector" where
  "normalize_index n ix =
     (case ix of
        Int_index i \<Rightarrow> Positions [i]
      | List_index ps \<Rightarrow> Positions ps
      | Tensor_index ps \<Rightarrow> Positions ps
      | Slice_index start stop step \<Rightarrow> Slice (resolve_bound n start) (resolve_bound n stop) step)"

text \<open>
  The body of \<^verbatim>\<open>index_select\<close>. Indexing \<^verbatim>\<open>self._tensor_frame\<close> when it is \<^verbatim>\<open>None\<close> raises
  \<^verbatim>\<open>TypeError\<close>.
\<close>

definition index_select_body :: "'v heap \<Rightarrow> addr \<Rightarrow> index \<Rightarrow> (error + addr) \<times> 'v heap" where
  "index_select_body h self ix =
     (case deref (datasets h) self of
        None \<Rightarrow> (Inl DanglingReference, h)
      | Some d \<Rightarrow>
          (let sel = normalize_index (len h self) ix;
               (dataset, h1) = copy_dataset h d
           in case df_iloc (df d) sel of
                Inl e \<Rightarrow> (Inl e, h1)
              | Inr frame \<Rightarrow>
                  (let h2 = update_dataset h1 dataset (\<lambda>c. c\<lparr>df := frame\<rparr>)
                   in case tensor_frame_attr d of
                        None \<Rightarrow> (Inl TypeError, h2)
                      | Some tf \<Rightarrow>
                          (case tf_getitem tf sel of
                             Inl e \<Rightarrow> (Inl e, h2)
                           | Inr tf' \<Rightarrow>
                               (Inr dataset,
                                update_dataset h2 dataset
                                  (\<lambda>c. c\<lparr>tensor_frame_attr := Some tf'\<rparr>))))))"

definition index_select :: "'v heap \<Rightarrow> addr \<Rightarrow> index \<Rightarrow> (error + addr) \<times> 'v heap" where
  "index_select = requires_post_materialization ''index_select'' index_select_body"

subsection \<open>Column selection\<close>

text \<open>
  The argument of \<^verbatim>\<open>col_select\<close>: a \<^verbatim>\<open>str\<close>, or the caller's list of \<^verbatim>\<open>str\<close>, by its
  address. A \<^verbatim>\<open>str\<close> is wrapped into a new list.
\<close>

datatype col_arg = Str_arg string | List_arg addr

definition wrap_cols :: "'v heap \<Rightarrow> col_arg \<Rightarrow> addr \<times> 'v heap" where
  "wrap_cols h cols =
     (case cols of
        Str_arg c \<Rightarrow> (length (str_lists h), h\<lparr>str_lists := str_lists h @ [[c]]\<rparr>)
      | List_arg p \<Rightarrow> (p, h))"

text \<open>\<^verbatim>\<open>cols.append(x)\<close> on the list at an address.\<close>

definition list_append :: "'v heap \<Rightarrow> addr \<Rightarrow> string \<Rightarrow> 'v heap" where
  "list_append h p x = h\<lparr>str_lists := (str_lists h)[p := str_lists h ! p @ [x]]\<rparr>"

text \<open>
  The dictionary comprehension \<^verbatim>\<open>{col: self.col_to_stype[col] for col in cols}\<close>, building
  on \<open>acc\<close>; a \<open>col\<close> that is no key raises \<^verbatim>\<open>KeyError\<close>.
\<close>

fun dict_comprehension ::
    "(string \<times> stype) list \<Rightarrow> string list \<Rightarrow> (string \<times> stype) list
       \<Rightarrow> error + (string \<times> stype) list" where
  "dict_comprehension cts [] acc = Inr acc"
| "dict_comprehension cts (col # cols) acc =
     (case map_of cts col of
        None \<Rightarrow> Inl KeyError
      | Some st \<Rightarrow> dict_comprehension cts cols (AList.update col st acc))"

definition col_select_body :: "'v heap \<Rightarrow> addr \<Rightarrow> col_arg \<Rightarrow> (error + addr) \<times> 'v heap" where
  "col_select_body h self cols_arg =
     (case deref (datasets h) self of
        None \<Rightarrow> (Inl DanglingReference, h)
      | Some d \<Rightarrow>
          (let (cols, h1) = wrap_cols h cols_arg
           in case deref (str_lists h1) cols of
                None \<Rightarrow> (Inl DanglingReference, h1)
              | Some l \<Rightarrow>
                  (let h2 = (case target_col d of
                               None \<Rightarrow> h1
                             | Some t \<Rightarrow> (if t \<notin> set l then list_append h1 cols t else h1));
                       l2 = str_lists h2 ! cols;
                       (dataset, h3) = copy_dataset h2 d
                   in case df_getitem_list (df d) l2 of
                        Inl e \<Rightarrow> (Inl e, h3)
                      | Inr frame \<Rightarrow>
                          (let h4 = update_dataset h3 dataset (\<lambda>c. c\<lparr>df := frame\<rparr>)
                           in case deref (stype_dicts h4) (col_to_stype d) of
                                None \<Rightarrow> (Inl DanglingReference, h4)
                              | Some cts \<Rightarrow>
                                  (case dict_comprehension cts l2 [] of
                                     Inl e \<Rightarrow> (Inl e, h4)
                                   | Inr new \<Rightarrow>
                                       (Inr dataset,
                                        update_dataset
                                          (h4\<lparr>stype_dicts := stype_dicts h4 @ [new]\<rparr>)
                                          dataset
                                          (\<lambda>c. c\<lparr>col_to_stype := length (stype_dicts h4)\<rparr>)))))))"

definition col_select :: "'v heap \<Rightarrow> addr \<Rightarrow> col_arg \<Rightarrow> (error + addr) \<times> 'v heap" where
  "col_select = requires_pre_materialization ''col_select'' col_select_body"

section \<open>Conditions of the theorems\<close>

text \<open>
  The spec's invariant that the tensor frame of a materialized data set has as many rows as
  its table: every column of every stacked tensor, and the target tensor, has \<open>n\<close> entries.
\<close>

definition tensor_rows :: "nat \<Rightarrow> 'v TensorFrame \<Rightarrow> bool" where
  "tensor_rows n tf =
     (list_all (\<lambda>p. list_all (\<lambda>c. length c = n) (snd p)) (x_dict tf)
      \<and> (case tf_y tf of None \<Rightarrow> True | Some t \<Rightarrow> length t = n))"

text \<open>
  What the theorem on unsupported semantic types asks of the statistics calculator, for one
  item of \<^verbatim>\<open>col_to_stype\<close>: the column is in the table; for a numerical column the
  calculator returns; for a categorical column it returns statistics with a \<^verbatim>\<open>COUNT\<close> pair
  of two lists of equal length; for any other semantic type it returns, or raises the
  spec's UnsupportedSemanticType error for that type.
\<close>

definition calculator_ok ::
    "('v list \<Rightarrow> stype \<Rightarrow> error + 'v col_stats) \<Rightarrow> 'v DataFrame \<Rightarrow> string \<times> stype \<Rightarrow> bool" where
  "calculator_ok compute_col_stats frame item =
     (case df_getitem frame (fst item) of
        Inl e \<Rightarrow> False
      | Inr ser \<Rightarrow>
          (case snd item of
             numerical \<Rightarrow>
               (case compute_col_stats ser numerical of Inl e \<Rightarrow> False | Inr cs \<Rightarrow> True)
           | categorical \<Rightarrow>
               (case compute_col_stats ser categorical of
                  Inl e \<Rightarrow> False
                | Inr cs \<Rightarrow>
                    (case map_of cs COUNT of
                       Some (Tuple index value) \<Rightarrow> length value = length index
                     | Some (Scalar x) \<Rightarrow> False
                     | None \<Rightarrow> False))
           | other_stype v \<Rightarrow>
               (case compute_col_stats ser (other_stype v) of
                  Inl e \<Rightarrow> e = NotImplementedError v
                | Inr cs \<Rightarrow> True)))"

section \<open>A running example\<close>

text \<open>
  A table of three rows with the columns \<^verbatim>\<open>age\<close> (numerical), \<^verbatim>\<open>city\<close> (categorical) and the
  target \<^verbatim>\<open>label\<close> (categorical, two categories, the more frequent one being the larger).
  \<open>example_initial\<close> is the store before the \<^verbatim>\<open>Dataset\<close> is constructed, \<open>example_store\<close> the
  store after construction, \<open>example_materialized\<close> the store after \<^verbatim>\<open>materialize\<close>.
\<close>

definition example_frame :: "int DataFrame" where
  "example_frame =
     \<lparr>columns = [''age'', ''city'', ''label''],
      rows = [[25, 7, 1], [30, 8, 1], [45, 7, 0]]\<rparr>"

definition example_types :: "(string \<times> stype) list" where
  "example_types = [(''age'', numerical), (''city'', categorical), (''label'', categorical)]"

definition example_dataset :: "int Dataset" where
  "example_dataset = \<lparr>df = example_frame, col_to_stype = 0, target_col = Some ''label'',
         is_materialized_attr = False, col_stats_attr = 0, tensor_frame_attr = None\<rparr>"

definition example_store :: "int heap" where
  "example_store =
     \<lparr>datasets = [example_dataset],
      stype_dicts = [example_types],
      stats_dicts = [[]],
      str_lists = [[''city'']]\<rparr>"

definition example_tensor_frame :: "int TensorFrame" where
  "example_tensor_frame =
     \<lparr>x_dict = [(numerical, [[Float_of 25, Float_of 30, Float_of 45]]),
                (categorical, [[Category 0, Category 1, Category 0]])],
      col_names_dict = [(numerical, [''age'']), (categorical, [''city''])],
      tf_y = Some [Category 1, Category 1, Category 0]\<rparr>"

definition example_materialized :: "int heap" where
  "example_materialized =
     \<lparr>datasets = [example_dataset\<lparr>tensor_frame_attr := Some example_tensor_frame, is_materialized_attr := True\<rparr>],
      stype_dicts = [example_types],
      stats_dicts = [[(''age'', []), (''city'', [(COUNT, Tuple [7, 8] [2, 1])]),
         (''label'', [(COUNT, Tuple [0, 1] [1, 2])])]],
      str_lists = [[''city'']]\<rparr>"

definition example_initial :: "int heap" where
  "example_initial =
     \<lparr>datasets = [], stype_dicts = [example_types], stats_dicts = [],
      str_lists = [[''city'']]\<rparr>"

text \<open>
  Two stores for the constructor: in the first the target \<^verbatim>\<open>label\<close> is no key of the
  dictionary, in the second the key \<^verbatim>\<open>zip\<close> is no column of the table.
\<close>

definition example_no_target_key :: "int heap" where
  "example_no_target_key =
     \<lparr>datasets = [], stype_dicts = [[(''age'', numerical), (''city'', categorical)]],
      stats_dicts = [], str_lists = []\<rparr>"

definition example_missing :: "int heap" where
  "example_missing =
     \<lparr>datasets = [],
      stype_dicts = [[(''age'', numerical), (''zip'', categorical), (''label'', categorical)]],
      stats_dicts = [], str_lists = []\<rparr>"






text \<open>
  The running example with the semantic type of \<^verbatim>\<open>city\<close> changed to one that has neither
  calculator nor mapper, and a calculator that, unlike the spec's, returns an empty
  dictionary for such a type.
\<close>

definition example_unsupported_types :: "(string \<times> stype) list" where
  "example_unsupported_types =
     [(''age'', numerical), (''city'', other_stype ''text''), (''label'', categorical)]"

definition example_unsupported :: "int heap" where
  "example_unsupported =
     \<lparr>datasets = [example_dataset],
      stype_dicts = [example_unsupported_types],
      stats_dicts = [[]],
      str_lists = []\<rparr>"

definition example_lenient_stats :: "int list \<Rightarrow> stype \<Rightarrow> error + int col_stats" where
  "example_lenient_stats ser st =
     (case st of
        other_stype v \<Rightarrow> Inr []
      | numerical \<Rightarrow> spec_compute_col_stats (\<lambda>ser. []) ser numerical
      | categorical \<Rightarrow> spec_compute_col_stats (\<lambda>ser. []) ser categorical)"

text \<open>
  A table of strings: the categorical column \<^verbatim>\<open>city\<close> and the target \<^verbatim>\<open>label\<close> with the
  categories \<^verbatim>\<open>yes\<close> (twice) and \<^verbatim>\<open>no\<close> (once), before and after \<^verbatim>\<open>materialize\<close>. By
  frequency \<^verbatim>\<open>yes\<close> comes first, lexicographically \<^verbatim>\<open>no\<close> does.
\<close>

definition example_text_dataset :: "string Dataset" where
  "example_text_dataset =
     \<lparr>df = \<lparr>columns = [''city'', ''label''],
             rows = [[''NY'', ''yes''], [''LA'', ''yes''], [''NY'', ''no'']]\<rparr>,
      col_to_stype = 0, target_col = Some ''label'',
      is_materialized_attr = False, col_stats_attr = 0, tensor_frame_attr = None\<rparr>"

definition example_text_store :: "string heap" where
  "example_text_store =
     \<lparr>datasets = [example_text_dataset],
      stype_dicts = [[(''city'', categorical), (''label'', categorical)]],
      stats_dicts = [[]],
      str_lists = []\<rparr>"

definition example_text_materialized :: "string heap" where
  "example_text_materialized =
     \<lparr>datasets =
        [example_text_dataset
           \<lparr>tensor_frame_attr :=
              Some \<lparr>x_dict = [(categorical, [[Category 0, Category 1, Category 0]])],
                     col_names_dict = [(categorical, [''city''])],
                     tf_y = Some [Category 1, Category 1, Category 0]\<rparr>,
            is_materialized_attr := True\<rparr>],
      stype_dicts = [[(''city'', categorical), (''label'', categorical)]],
      stats_dicts = [[(''city'', [(COUNT, Tuple [''NY'', ''LA''] [2, 1])]),
                      (''label'', [(COUNT, Tuple [''no'', ''yes''] [1, 2])])]],
      str_lists = []\<rparr>"

section \<open>Properties\<close>

subsection \<open>What the loops of materialization leave unchanged\<close>

lemma stats_setitem_frame [simp]:
  "datasets (stats_setitem h p col cs) = datasets h"
  "stype_dicts (stats_setitem h p col cs) = stype_dicts h"
  "str_lists (stats_setitem h p col cs) = str_lists h"
  "length (stats_dicts (stats_setitem h p col cs)) = length (stats_dicts h)"
  by (simp_all add: stats_setitem_def)

lemma fill_col_stats_frame:
  "fill_col_stats ccs frame p items h = (r, h') \<Longrightarrow>
     datasets h' = datasets h \<and> stype_dicts h' = stype_dicts h \<and> str_lists h' = str_lists h
     \<and> length (stats_dicts h') = length (stats_dicts h)"
proof (induction items arbitrary: h)
  case Nil
  then show ?case by simp
next
  case (Cons a items)
  obtain col st where a: "a = (col, st)" by (cases a)
  show ?case
  proof (cases "df_getitem frame col")
    case (Inl e)
    with Cons.prems a show ?thesis by simp
  next
    case (Inr ser)
    show ?thesis
    proof (cases "ccs ser st")
      case (Inl e)
      with Cons.prems a Inr show ?thesis by simp
    next
      case (Inr cs)
      with Cons.prems a \<open>df_getitem frame col = Inr ser\<close>
      have "fill_col_stats ccs frame p items (stats_setitem h p col cs) = (r, h')" by simp
      from Cons.IH [OF this] show ?thesis by simp
    qed
  qed
qed

lemma select_mapper_frame:
  "select_mapper d col st h = (r, h') \<Longrightarrow>
     datasets h' = datasets h \<and> stype_dicts h' = stype_dicts h \<and> str_lists h' = str_lists h
     \<and> length (stats_dicts h') = length (stats_dicts h)"
  by (auto simp: select_mapper_def split: stype.splits option.splits stat_value.splits if_splits sum.splits prod.splits)

lemma to_tensor_frame_loop_frame:
  "to_tensor_frame_loop d items s h = (r, h') \<Longrightarrow>
     datasets h' = datasets h \<and> stype_dicts h' = stype_dicts h \<and> str_lists h' = str_lists h
     \<and> length (stats_dicts h') = length (stats_dicts h)"
proof (induction items arbitrary: s h)
  case Nil
  then show ?case by simp
next
  case (Cons a items)
  obtain col st where a: "a = (col, st)" by (cases a)
  obtain rm hm where sm: "select_mapper d col st h = (rm, hm)" by (cases "select_mapper d col st h")
  note fr = select_mapper_frame [OF sm]
  show ?case
  proof (cases rm)
    case (Inl e)
    with Cons.prems a sm fr show ?thesis by simp
  next
    case (Inr mapper)
    show ?thesis
    proof (cases "df_getitem (df d) col")
      case (Inl e)
      with Cons.prems a sm fr Inr show ?thesis by simp
    next
      case ser: (Inr ser)
      show ?thesis
      proof (cases "Some col = target_col d")
        case True
        with Cons.prems a sm Inr ser
        have "to_tensor_frame_loop d items (s\<lparr>y_local := Some (forward mapper ser)\<rparr>) hm = (r, h')"
          by simp
        from Cons.IH [OF this] fr show ?thesis by simp
      next
        case False
        with Cons.prems a sm Inr ser
        have "to_tensor_frame_loop d items
                (s\<lparr>xs_dict := dd_append (xs_dict s) st (forward mapper ser),
                   names_dict := dd_append (names_dict s) st col\<rparr>) hm = (r, h')"
          by simp
        from Cons.IH [OF this] fr show ?thesis by simp
      qed
    qed
  qed
qed

lemma to_tensor_frame_frame:
  "to_tensor_frame h self = (r, h') \<Longrightarrow>
     datasets h' = datasets h \<and> stype_dicts h' = stype_dicts h \<and> str_lists h' = str_lists h
     \<and> length (stats_dicts h') = length (stats_dicts h)"
  unfolding to_tensor_frame_def
  by (auto split: option.splits prod.splits sum.splits dest: to_tensor_frame_loop_frame)

subsection \<open>Materialization happens once\<close>

lemma is_materialized_deref:
  "is_materialized h self \<Longrightarrow> \<exists>d. deref (datasets h) self = Some d \<and> is_materialized_attr d"
  by (auto simp: is_materialized_def split: option.splits)

lemma materialize_noop:
  assumes "is_materialized h self"
  shows "materialize ccs h self = (Inr self, h)"
proof -
  from is_materialized_deref [OF assms] obtain d where "deref (datasets h) self = Some d"
    by blast
  with assms show ?thesis by (simp add: materialize_def)
qed

lemma materialize_failure_frame:
  assumes "materialize ccs h self = (Inl e, h')"
  shows "datasets h' = datasets h \<and> stype_dicts h' = stype_dicts h \<and> str_lists h' = str_lists h"
  using assms unfolding materialize_def
  by (auto split: option.splits if_splits prod.splits sum.splits
           dest!: fill_col_stats_frame to_tensor_frame_frame)

lemma materialize_success:
  assumes "materialize ccs h self = (Inr r, h')"
  shows "r = self \<and> is_materialized h' self"
proof (cases "is_materialized h self")
  case True
  with assms show ?thesis by (simp add: materialize_noop)
next
  case False
  from assms obtain d where d: "deref (datasets h) self = Some d"
    by (auto simp: materialize_def split: option.splits)
  from assms False d obtain items where items: "deref (stype_dicts h) (col_to_stype d) = Some items"
    by (auto simp: materialize_def split: option.splits)
  obtain r1 h1 where s1: "fill_col_stats ccs (df d) (col_stats_attr d) items h = (r1, h1)"
    by (cases "fill_col_stats ccs (df d) (col_stats_attr d) items h")
  obtain r2 h2 where s2: "to_tensor_frame h1 self = (r2, h2)"
    by (cases "to_tensor_frame h1 self")
  from assms False d items s1 s2 obtain tf where
    r: "r = self" and
    h': "h' = update_dataset (update_dataset h2 self (\<lambda>d. d\<lparr>tensor_frame_attr := Some tf\<rparr>))
               self (\<lambda>d. d\<lparr>is_materialized_attr := True\<rparr>)"
    by (auto simp: materialize_def split: sum.splits)
  from fill_col_stats_frame [OF s1] to_tensor_frame_frame [OF s2]
  have "datasets h2 = datasets h" by simp
  moreover from d have "self < length (datasets h)"
    by (simp add: deref_def split: if_splits)
  ultimately have "is_materialized h' self"
    by (simp add: h' is_materialized_def deref_def update_dataset_def)
  with r show ?thesis by simp
qed

text \<open>
  Claim C2. \<^verbatim>\<open>materialize\<close> is idempotent: after a call that returned, the data set is
  materialized, and a further call (with whatever statistics calculator) returns the same
  object \<open>self\<close> and leaves the whole store as it is, so nothing is recomputed and the
  tensor frame and the column statistics read afterwards are those of the first call.
\<close>

theorem materialize_idempotent:
  assumes "materialize compute_col_stats h self = (Inr r, h')"
  shows "r = self \<and> is_materialized h' self
         \<and> materialize compute_col_stats' h' self = (Inr self, h')
         \<and> tensor_frame (snd (materialize compute_col_stats' h' self)) self = tensor_frame h' self
         \<and> col_stats (snd (materialize compute_col_stats' h' self)) self = col_stats h' self"
proof -
  from materialize_success [OF assms] have a: "r = self" and b: "is_materialized h' self"
    by simp_all
  from materialize_noop [OF b]
  have c: "materialize compute_col_stats' h' self = (Inr self, h')" .
  from a b c show ?thesis by simp
qed

theorem materialize_idempotent_witness:
  "materialize (spec_compute_col_stats (\<lambda>ser. [])) example_store 0 = (Inr 0, example_materialized)
   \<and> is_materialized example_materialized 0
   \<and> materialize (spec_compute_col_stats (\<lambda>ser. [])) example_materialized 0
       = (Inr 0, example_materialized)"
proof -
  have first: "materialize (spec_compute_col_stats (\<lambda>ser. [])) example_store 0
                 = (Inr 0, example_materialized)"
    by code_simp
  from materialize_idempotent [OF first, of "spec_compute_col_stats (\<lambda>ser. [])"] first
  show ?thesis by simp
qed

subsection \<open>The guards on the materialization state\<close>

text \<open>
  Claim C4. On a materialized data set, in particular after \<^verbatim>\<open>materialize\<close> has returned,
  \<^verbatim>\<open>col_select\<close> raises the \<^verbatim>\<open>RuntimeError\<close> of \<^verbatim>\<open>requires_pre_materialization\<close> and leaves the
  store unchanged. On a data set that is not materialized, in particular on one just
  constructed, \<^verbatim>\<open>index_select\<close> and the properties \<^verbatim>\<open>tensor_frame\<close> and \<^verbatim>\<open>col_stats\<close> raise
  the \<^verbatim>\<open>RuntimeError\<close> of \<^verbatim>\<open>requires_post_materialization\<close>.
\<close>

theorem materialization_guards:
  "(is_materialized h self \<longrightarrow>
      col_select h self cols = (Inl (RuntimeError_post_materialization ''col_select''), h))
   \<and> (materialize compute_col_stats h0 self = (Inr r, h) \<longrightarrow>
      col_select h self cols = (Inl (RuntimeError_post_materialization ''col_select''), h))
   \<and> (\<not> is_materialized h self \<longrightarrow>
      index_select h self ix = (Inl (RuntimeError_requires_materialized ''index_select''), h)
      \<and> tensor_frame h self = (Inl (RuntimeError_requires_materialized ''tensor_frame''), h)
      \<and> col_stats h self = (Inl (RuntimeError_requires_materialized ''col_stats''), h))
   \<and> (Dataset_init h1 frame cts target = (Inr self, h) \<longrightarrow> \<not> is_materialized h self)"
proof -
  have a: "is_materialized h self \<Longrightarrow>
      col_select h self cols = (Inl (RuntimeError_post_materialization ''col_select''), h)"
    by (simp add: col_select_def requires_pre_materialization_def)
  have b: "materialize compute_col_stats h0 self = (Inr r, h) \<Longrightarrow> is_materialized h self"
    by (simp add: materialize_success)
  have c: "\<not> is_materialized h self \<Longrightarrow>
      index_select h self ix = (Inl (RuntimeError_requires_materialized ''index_select''), h)
      \<and> tensor_frame h self = (Inl (RuntimeError_requires_materialized ''tensor_frame''), h)
      \<and> col_stats h self = (Inl (RuntimeError_requires_materialized ''col_stats''), h)"
    by (simp add: index_select_def tensor_frame_def col_stats_def requires_post_materialization_def)
  have d: "Dataset_init h1 frame cts target = (Inr self, h) \<Longrightarrow> \<not> is_materialized h self"
    by (auto simp: Dataset_init_def Let_def is_materialized_def deref_def nth_append
             split: sum.splits if_splits)
  from a b c d show ?thesis by blast
qed

theorem materialization_guards_witness:
  "is_materialized example_materialized 0
   \<and> materialize (spec_compute_col_stats (\<lambda>ser. [])) example_store 0
        = (Inr 0, example_materialized)
   \<and> col_select example_materialized 0 (Str_arg ''city'')
        = (Inl (RuntimeError_post_materialization ''col_select''), example_materialized)
   \<and> Dataset_init example_initial example_frame 0 (Some ''label'') = (Inr 0, example_store)
   \<and> \<not> is_materialized example_store 0
   \<and> index_select example_store 0 (List_index [0])
        = (Inl (RuntimeError_requires_materialized ''index_select''), example_store)
   \<and> tensor_frame example_store 0
        = (Inl (RuntimeError_requires_materialized ''tensor_frame''), example_store)
   \<and> col_stats example_store 0
        = (Inl (RuntimeError_requires_materialized ''col_stats''), example_store)"
proof -
  have m: "materialize (spec_compute_col_stats (\<lambda>ser. [])) example_store 0
             = (Inr 0, example_materialized)"
    by code_simp
  have i: "Dataset_init example_initial example_frame 0 (Some ''label'') = (Inr 0, example_store)"
    by code_simp
  have a: "is_materialized example_materialized 0"
    by code_simp
  from materialization_guards
         [of example_materialized 0 "Str_arg ''city''" "spec_compute_col_stats (\<lambda>ser. [])"
             example_store 0 "List_index [0]" example_initial example_frame 0 "Some ''label''"] m a
  have post: "col_select example_materialized 0 (Str_arg ''city'')
        = (Inl (RuntimeError_post_materialization ''col_select''), example_materialized)"
    by blast
  from materialization_guards
         [of example_store 0 "Str_arg ''city''" "spec_compute_col_stats (\<lambda>ser. [])"
             example_store 0 "List_index [0]" example_initial example_frame 0 "Some ''label''"] i
  have pre: "\<not> is_materialized example_store 0
   \<and> index_select example_store 0 (List_index [0])
        = (Inl (RuntimeError_requires_materialized ''index_select''), example_store)
   \<and> tensor_frame example_store 0
        = (Inl (RuntimeError_requires_materialized ''tensor_frame''), example_store)
   \<and> col_stats example_store 0
        = (Inl (RuntimeError_requires_materialized ''col_stats''), example_store)"
    by blast
  from m i a post pre show ?thesis by blast
qed

subsection \<open>Column selection\<close>

lemma dict_comprehension_result:
  assumes "set cols \<subseteq> fst ` set cts"
  shows "\<exists>new. dict_comprehension cts cols acc = Inr new
           \<and> fst ` set new = fst ` set acc \<union> set cols
           \<and> (distinct (map fst acc) \<longrightarrow> distinct (map fst new))
           \<and> (\<forall>c. map_of new c = (if c \<in> set cols then map_of cts c else map_of acc c))"
  using assms
proof (induction cols arbitrary: acc)
  case Nil
  then show ?case by simp
next
  case (Cons col cols)
  from Cons.prems have "col \<in> fst ` set cts" by simp
  then obtain st where st: "map_of cts col = Some st"
    by (metis domD dom_map_of_conv_image_fst)
  from Cons.prems have "set cols \<subseteq> fst ` set cts" by simp
  from Cons.IH [OF this, of "AList.update col st acc"]
  obtain new where new: "dict_comprehension cts cols (AList.update col st acc) = Inr new"
    and keys: "fst ` set new = fst ` set (AList.update col st acc) \<union> set cols"
    and dist: "distinct (map fst (AList.update col st acc)) \<longrightarrow> distinct (map fst new)"
    and vals: "\<forall>c. map_of new c =
                 (if c \<in> set cols then map_of cts c else map_of (AList.update col st acc) c)"
    by blast
  have "dict_comprehension cts (col # cols) acc = Inr new"
    using st new by simp
  moreover have "fst ` set new = fst ` set acc \<union> set (col # cols)"
    using keys by (auto simp: AList.dom_update)
  moreover have "distinct (map fst acc) \<longrightarrow> distinct (map fst new)"
    using dist by (simp add: AList.distinct_update)
  moreover have "\<forall>c. map_of new c = (if c \<in> set (col # cols) then map_of cts c else map_of acc c)"
    using vals st by (auto simp: AList.update_conv')
  ultimately show ?case by blast
qed

lemma dict_comprehension_failure:
  "\<not> set cols \<subseteq> fst ` set cts \<Longrightarrow> dict_comprehension cts cols acc = Inl KeyError"
proof (induction cols arbitrary: acc)
  case Nil
  then show ?case by simp
next
  case (Cons col cols)
  show ?case
  proof (cases "map_of cts col")
    case None
    then show ?thesis by simp
  next
    case (Some st)
    then have "col \<in> fst ` set cts"
      by (metis domI dom_map_of_conv_image_fst)
    with Cons.prems have "\<not> set cols \<subseteq> fst ` set cts" by simp
    from Cons.IH [OF this] Some show ?thesis by simp
  qed
qed

lemma list_append_frame [simp]:
  "datasets (list_append h p x) = datasets h"
  "stype_dicts (list_append h p x) = stype_dicts h"
  "stats_dicts (list_append h p x) = stats_dicts h"
  "str_lists (list_append h p x) = (str_lists h)[p := str_lists h ! p @ [x]]"
  by (simp_all add: list_append_def)

lemma col_select_body_after_append:
  assumes d: "deref (datasets h2) self = Some d"
    and cts: "deref (stype_dicts h2) (col_to_stype d) = Some cts"
    and cols_ok: "set l2 \<subseteq> set (columns (df d))"
    and new: "dict_comprehension cts l2 [] = Inr new"
  shows "(let (dataset, h3) = copy_dataset h2 d
          in case df_getitem_list (df d) l2 of
               Inl e \<Rightarrow> (Inl e, h3)
             | Inr frame \<Rightarrow>
                 (let h4 = update_dataset h3 dataset (\<lambda>c. c\<lparr>df := frame\<rparr>)
                  in case deref (stype_dicts h4) (col_to_stype d) of
                       None \<Rightarrow> (Inl DanglingReference, h4)
                     | Some cts \<Rightarrow>
                         (case dict_comprehension cts l2 [] of
                            Inl e \<Rightarrow> (Inl e, h4)
                          | Inr new \<Rightarrow>
                              (Inr dataset,
                               update_dataset
                                 (h4\<lparr>stype_dicts := stype_dicts h4 @ [new]\<rparr>)
                                 dataset
                                 (\<lambda>c. c\<lparr>col_to_stype := length (stype_dicts h4)\<rparr>)))))
         = (Inr (length (datasets h2)),
            h2\<lparr>datasets := datasets h2 @
                   [d\<lparr>df := \<lparr>columns = l2,
                               rows = map (\<lambda>r. map (\<lambda>c. r ! index_of c (columns (df d))) l2)
                                        (rows (df d))\<rparr>,
                      col_to_stype := length (stype_dicts h2)\<rparr>],
               stype_dicts := stype_dicts h2 @ [new]\<rparr>)"
proof -
  from cols_ok have all: "list_all (\<lambda>c. c \<in> set (columns (df d))) l2"
    by (auto simp: list_all_iff)
  from cts have c: "col_to_stype d < length (stype_dicts h2)"
    and cc: "stype_dicts h2 ! col_to_stype d = cts"
    by (auto simp: deref_def split: if_splits)
  show ?thesis
    using all c cc new
    by (simp add: copy_dataset_def df_getitem_list_def update_dataset_def deref_def)
qed

lemma col_select_unguarded:
  assumes "deref (datasets h) self = Some d" "\<not> is_materialized_attr d"
  shows "col_select h self cols = col_select_body h self cols"
  using assms by (simp add: col_select_def requires_pre_materialization_def is_materialized_def)

lemma col_select_body_unfold:
  assumes d: "deref (datasets h) self = Some d"
    and l: "deref (str_lists h) p = Some l"
  shows "col_select_body h self (List_arg p) =
     (let h2 = (case target_col d of
                  None \<Rightarrow> h
                | Some t \<Rightarrow> (if t \<notin> set l then list_append h p t else h));
          l2 = str_lists h2 ! p;
          (dataset, h3) = copy_dataset h2 d
      in case df_getitem_list (df d) l2 of
           Inl e \<Rightarrow> (Inl e, h3)
         | Inr frame \<Rightarrow>
             (let h4 = update_dataset h3 dataset (\<lambda>c. c\<lparr>df := frame\<rparr>)
              in case deref (stype_dicts h4) (col_to_stype d) of
                   None \<Rightarrow> (Inl DanglingReference, h4)
                 | Some cts \<Rightarrow>
                     (case dict_comprehension cts l2 [] of
                        Inl e \<Rightarrow> (Inl e, h4)
                      | Inr new \<Rightarrow>
                          (Inr dataset,
                           update_dataset
                             (h4\<lparr>stype_dicts := stype_dicts h4 @ [new]\<rparr>)
                             dataset
                             (\<lambda>c. c\<lparr>col_to_stype := length (stype_dicts h4)\<rparr>)))))"
  using d l by (simp add: col_select_body_def wrap_cols_def)

text \<open>
  Claim C10. On a data set that is not materialized and has a target column, \<^verbatim>\<open>col_select\<close>
  called with the caller's list of column names, the target not among them, appends the
  target to that very list: after the call, whether it returned or raised, the list at
  the caller's address is the old list followed by the target.
\<close>

theorem col_select_appends_target_to_argument:
  assumes "deref (datasets h) self = Some d"
    and "\<not> is_materialized_attr d"
    and "target_col d = Some t"
    and "deref (str_lists h) p = Some cols"
    and "t \<notin> set cols"
  shows "deref (str_lists (snd (col_select h self (List_arg p)))) p = Some (cols @ [t])"
proof -
  from assms(4) have p: "p < length (str_lists h)" and lp: "str_lists h ! p = cols"
    by (auto simp: deref_def split: if_splits)
  have "str_lists (snd (col_select h self (List_arg p))) = str_lists (list_append h p t)"
    unfolding col_select_unguarded [OF assms(1,2)] col_select_body_unfold [OF assms(1,4)]
    using assms(3,5)
    by (simp add: Let_def copy_dataset_def update_dataset_def split: sum.splits option.splits)
  then show ?thesis using p lp by (simp add: deref_def)
qed

theorem col_select_appends_target_to_argument_witness:
  "deref (str_lists example_store) 0 = Some [''city'']
   \<and> deref (str_lists (snd (col_select example_store 0 (List_arg 0)))) 0
        = Some [''city'', ''label'']"
proof -
  have a: "deref (datasets example_store) 0 = Some example_dataset"
    by (simp add: example_store_def deref_def)
  have b: "\<not> is_materialized_attr example_dataset"
    by (simp add: example_dataset_def)
  have c: "target_col example_dataset = Some ''label''"
    by (simp add: example_dataset_def)
  have d: "deref (str_lists example_store) 0 = Some [''city'']"
    by (simp add: example_store_def deref_def)
  have e: "''label'' \<notin> set [''city'']"
    by simp
  from col_select_appends_target_to_argument [OF a b c d e] d show ?thesis by simp
qed

lemma col_select_body_str:
  "deref (datasets h) self = Some d \<Longrightarrow>
   col_select_body h self (Str_arg c) =
     col_select_body (h\<lparr>str_lists := str_lists h @ [[c]]\<rparr>) self (List_arg (length (str_lists h)))"
  by (simp add: col_select_body_def wrap_cols_def)

lemma col_select_body_list_result:
  assumes d: "deref (datasets h) self = Some d"
    and t: "target_col d = Some t"
    and cts: "deref (stype_dicts h) (col_to_stype d) = Some cts"
    and l: "deref (str_lists h) p = Some cols"
    and nt: "t \<notin> set cols"
    and cols_ok: "set cols \<union> {t} \<subseteq> set (columns (df d))"
    and new: "dict_comprehension cts (cols @ [t]) [] = Inr new"
  shows "col_select_body h self (List_arg p) =
           (Inr (length (datasets h)),
            (list_append h p t)
              \<lparr>datasets := datasets h @
                   [d\<lparr>df := \<lparr>columns = cols @ [t],
                               rows = map (\<lambda>r. map (\<lambda>c. r ! index_of c (columns (df d))) (cols @ [t]))
                                        (rows (df d))\<rparr>,
                      col_to_stype := length (stype_dicts h)\<rparr>],
               stype_dicts := stype_dicts h @ [new]\<rparr>)"
proof -
  from l have p: "p < length (str_lists h)" and lp: "str_lists h ! p = cols"
    by (auto simp: deref_def split: if_splits)
  define h2 where "h2 = list_append h p t"
  have l2: "str_lists h2 ! p = cols @ [t]"
    using p lp by (simp add: h2_def)
  have d2: "deref (datasets h2) self = Some d"
    using d by (simp add: h2_def)
  have c2: "deref (stype_dicts h2) (col_to_stype d) = Some cts"
    using cts by (simp add: h2_def)
  from cols_ok have ok2: "set (cols @ [t]) \<subseteq> set (columns (df d))" by simp
  have "col_select_body h self (List_arg p) =
     (let l2 = str_lists h2 ! p;
          (dataset, h3) = copy_dataset h2 d
      in case df_getitem_list (df d) l2 of
           Inl e \<Rightarrow> (Inl e, h3)
         | Inr frame \<Rightarrow>
             (let h4 = update_dataset h3 dataset (\<lambda>c. c\<lparr>df := frame\<rparr>)
              in case deref (stype_dicts h4) (col_to_stype d) of
                   None \<Rightarrow> (Inl DanglingReference, h4)
                 | Some cts \<Rightarrow>
                     (case dict_comprehension cts l2 [] of
                        Inl e \<Rightarrow> (Inl e, h4)
                      | Inr new \<Rightarrow>
                          (Inr dataset,
                           update_dataset
                             (h4\<lparr>stype_dicts := stype_dicts h4 @ [new]\<rparr>)
                             dataset
                             (\<lambda>c. c\<lparr>col_to_stype := length (stype_dicts h4)\<rparr>)))))"
    unfolding col_select_body_unfold [OF d l] h2_def using t nt by simp
  also have "\<dots> = (Inr (length (datasets h2)),
            h2\<lparr>datasets := datasets h2 @
                   [d\<lparr>df := \<lparr>columns = cols @ [t],
                               rows = map (\<lambda>r. map (\<lambda>c. r ! index_of c (columns (df d))) (cols @ [t]))
                                        (rows (df d))\<rparr>,
                      col_to_stype := length (stype_dicts h2)\<rparr>],
               stype_dicts := stype_dicts h2 @ [new]\<rparr>)"
    unfolding l2 Let_def
    using col_select_body_after_append [OF d2 c2 ok2 new, unfolded Let_def] by simp
  finally show ?thesis by (simp add: h2_def)
qed

text \<open>
  Claim C8. On a data set that is not materialized and has a target column \<open>t\<close>,
  \<^verbatim>\<open>col_select\<close> of columns \<open>cols\<close> (a list, or one name) that are columns of the table and
  keys of \<^verbatim>\<open>col_to_stype\<close>, the target not among them, returns a new data set with the same
  target whose \<^verbatim>\<open>col_to_stype\<close> is a dictionary with exactly the keys \<open>cols\<close> and \<open>t\<close>, each with
  the semantic type it had; for a single column \<open>c\<close> it is \<open>{c: type of c, t: type of t}\<close>.
\<close>

theorem col_select_keeps_target:
  assumes d: "deref (datasets h) self = Some d"
    and unmat: "\<not> is_materialized_attr d"
    and t: "target_col d = Some t"
    and cts: "deref (stype_dicts h) (col_to_stype d) = Some cts"
    and arg: "(arg = List_arg p \<and> deref (str_lists h) p = Some cols)
              \<or> (arg = Str_arg c0 \<and> cols = [c0])"
    and nt: "t \<notin> set cols"
    and cols_ok: "set cols \<union> {t} \<subseteq> set (columns (df d))"
    and keys_ok: "set cols \<union> {t} \<subseteq> fst ` set cts"
  shows "\<exists>r h' d' new.
           col_select h self arg = (Inr r, h')
           \<and> deref (datasets h') r = Some d'
           \<and> target_col d' = Some t
           \<and> \<not> is_materialized_attr d'
           \<and> deref (stype_dicts h') (col_to_stype d') = Some new
           \<and> distinct (map fst new)
           \<and> fst ` set new = set cols \<union> {t}
           \<and> (\<forall>c \<in> set cols \<union> {t}. map_of new c = map_of cts c)
           \<and> (\<forall>c. cols = [c] \<longrightarrow>
                 (\<exists>st st'. map_of cts c = Some st \<and> map_of cts t = Some st'
                            \<and> new = [(c, st), (t, st')]))"
proof -
  from keys_ok have "set (cols @ [t]) \<subseteq> fst ` set cts" by simp
  from dict_comprehension_result [OF this, of "[]"]
  obtain new where new: "dict_comprehension cts (cols @ [t]) [] = Inr new"
    and keys: "fst ` set new = set cols \<union> {t}"
    and dist: "distinct (map fst new)"
    and vals: "\<forall>c. map_of new c = (if c \<in> set (cols @ [t]) then map_of cts c else None)"
    by auto
  define h1 where "h1 = (case arg of Str_arg c \<Rightarrow> h\<lparr>str_lists := str_lists h @ [[c]]\<rparr> | List_arg q \<Rightarrow> h)"
  define q where "q = (case arg of Str_arg c \<Rightarrow> length (str_lists h) | List_arg q \<Rightarrow> q)"
  have body: "col_select_body h self arg = col_select_body h1 self (List_arg q)"
    using arg d by (auto simp: h1_def q_def col_select_body_str)
  have d1: "deref (datasets h1) self = Some d"
    using d by (simp add: h1_def split: col_arg.splits)
  have c1: "deref (stype_dicts h1) (col_to_stype d) = Some cts"
    using cts by (simp add: h1_def split: col_arg.splits)
  have l1: "deref (str_lists h1) q = Some cols"
    using arg by (auto simp: h1_def q_def deref_def split: if_splits)
  have len: "length (datasets h1) = length (datasets h)" "length (stype_dicts h1) = length (stype_dicts h)"
    by (simp_all add: h1_def split: col_arg.splits)
  let ?d' = "d\<lparr>df := \<lparr>columns = cols @ [t],
                      rows = map (\<lambda>r. map (\<lambda>c. r ! index_of c (columns (df d))) (cols @ [t]))
                                 (rows (df d))\<rparr>,
               col_to_stype := length (stype_dicts h1)\<rparr>"
  let ?h' = "(list_append h1 q t)
              \<lparr>datasets := datasets h1 @ [?d'], stype_dicts := stype_dicts h1 @ [new]\<rparr>"
  have res: "col_select h self arg = (Inr (length (datasets h1)), ?h')"
    unfolding col_select_unguarded [OF d unmat] body
    by (rule col_select_body_list_result [OF d1 t c1 l1 nt cols_ok new])
  have dd: "deref (datasets ?h') (length (datasets h1)) = Some ?d'"
    by (simp add: deref_def)
  have cc: "deref (stype_dicts ?h') (col_to_stype ?d') = Some new"
    by (simp add: deref_def)
  have single: "\<forall>c. cols = [c] \<longrightarrow>
                 (\<exists>st st'. map_of cts c = Some st \<and> map_of cts t = Some st'
                            \<and> new = [(c, st), (t, st')])"
  proof (intro allI impI)
    fix c assume c: "cols = [c]"
    with nt have ne: "c \<noteq> t" by auto
    from new c show "\<exists>st st'. map_of cts c = Some st \<and> map_of cts t = Some st'
                            \<and> new = [(c, st), (t, st')]"
      using ne by (auto split: option.splits)
  qed
  have vals': "\<forall>c \<in> set cols \<union> {t}. map_of new c = map_of cts c"
    using vals by auto
  from res dd cc t unmat dist keys vals' single show ?thesis
    by (intro exI [of _ "length (datasets h1)"] exI [of _ ?h'] exI [of _ ?d'] exI [of _ new]) simp
qed

theorem col_select_keeps_target_witness:
  "(\<exists>r h' d'. col_select example_store 0 (List_arg 0) = (Inr r, h')
      \<and> deref (datasets h') r = Some d'
      \<and> target_col d' = Some ''label''
      \<and> deref (stype_dicts h') (col_to_stype d')
           = Some [(''city'', categorical), (''label'', categorical)])
   \<and> (\<exists>r h' d'. col_select example_store 0 (Str_arg ''age'') = (Inr r, h')
      \<and> deref (datasets h') r = Some d'
      \<and> target_col d' = Some ''label''
      \<and> deref (stype_dicts h') (col_to_stype d')
           = Some [(''age'', numerical), (''label'', categorical)])"
proof -
  have a: "deref (datasets example_store) 0 = Some example_dataset"
    by (simp add: example_store_def deref_def)
  have b: "\<not> is_materialized_attr example_dataset"
    by (simp add: example_dataset_def)
  have c: "target_col example_dataset = Some ''label''"
    by (simp add: example_dataset_def)
  have t: "deref (stype_dicts example_store) (col_to_stype example_dataset) = Some example_types"
    by (simp add: example_store_def example_dataset_def deref_def)
  have d: "(List_arg 0 = List_arg 0 \<and> deref (str_lists example_store) 0 = Some [''city''])
           \<or> (List_arg 0 = Str_arg [] \<and> [''city''] = [[]])"
    by (simp add: example_store_def deref_def)
  have e: "''label'' \<notin> set [''city'']"
    by simp
  have f: "set [''city''] \<union> {''label''} \<subseteq> set (columns (df example_dataset))"
    by (simp add: example_dataset_def example_frame_def)
  have g: "set [''city''] \<union> {''label''} \<subseteq> fst ` set example_types"
    by (simp add: example_types_def)
  from col_select_keeps_target [OF a b c t d e f g]
  have list: "\<exists>r h' d'. col_select example_store 0 (List_arg 0) = (Inr r, h')
      \<and> deref (datasets h') r = Some d'
      \<and> target_col d' = Some ''label''
      \<and> deref (stype_dicts h') (col_to_stype d')
           = Some [(''city'', categorical), (''label'', categorical)]"
  proof (elim exE conjE)
    fix r h' d' new
    assume 1: "col_select example_store 0 (List_arg 0) = (Inr r, h')"
      and 2: "deref (datasets h') r = Some d'"
      and 3: "target_col d' = Some ''label''"
      and 4: "deref (stype_dicts h') (col_to_stype d') = Some new"
      and 5: "\<forall>c. [''city''] = [c] \<longrightarrow>
        (\<exists>st st'. map_of example_types c = Some st \<and> map_of example_types ''label'' = Some st'
                   \<and> new = [(c, st), (''label'', st')])"
    from 5 have "\<exists>st st'. map_of example_types ''city'' = Some st
                   \<and> map_of example_types ''label'' = Some st'
                   \<and> new = [(''city'', st), (''label'', st')]"
      by (rule allE [of _ "''city''"]) simp
    then have "new = [(''city'', categorical), (''label'', categorical)]"
      by (simp add: example_types_def)
    with 1 2 3 4 show ?thesis
      by (intro exI [of _ r] exI [of _ h'] exI [of _ d']) simp
  qed
  have d': "(Str_arg ''age'' = List_arg 0 \<and> deref (str_lists example_store) 0 = Some [''age''])
           \<or> (Str_arg ''age'' = Str_arg ''age'' \<and> [''age''] = [''age''])"
    by simp
  have e': "''label'' \<notin> set [''age'']"
    by simp
  have f': "set [''age''] \<union> {''label''} \<subseteq> set (columns (df example_dataset))"
    by (simp add: example_dataset_def example_frame_def)
  have g': "set [''age''] \<union> {''label''} \<subseteq> fst ` set example_types"
    by (simp add: example_types_def)
  from col_select_keeps_target [OF a b c t d' e' f' g']
  have name: "\<exists>r h' d'. col_select example_store 0 (Str_arg ''age'') = (Inr r, h')
      \<and> deref (datasets h') r = Some d'
      \<and> target_col d' = Some ''label''
      \<and> deref (stype_dicts h') (col_to_stype d')
           = Some [(''age'', numerical), (''label'', categorical)]"
  proof (elim exE conjE)
    fix r h' d' new
    assume 1: "col_select example_store 0 (Str_arg ''age'') = (Inr r, h')"
      and 2: "deref (datasets h') r = Some d'"
      and 3: "target_col d' = Some ''label''"
      and 4: "deref (stype_dicts h') (col_to_stype d') = Some new"
      and 5: "\<forall>c. [''age''] = [c] \<longrightarrow>
        (\<exists>st st'. map_of example_types c = Some st \<and> map_of example_types ''label'' = Some st'
                   \<and> new = [(c, st), (''label'', st')])"
    from 5 have "\<exists>st st'. map_of example_types ''age'' = Some st
                   \<and> map_of example_types ''label'' = Some st'
                   \<and> new = [(''age'', st), (''label'', st')]"
      by (rule allE [of _ "''age''"]) simp
    then have "new = [(''age'', numerical), (''label'', categorical)]"
      by (simp add: example_types_def)
    with 1 2 3 4 show ?thesis
      by (intro exI [of _ r] exI [of _ h'] exI [of _ d']) simp
  qed
  from list name show ?thesis by (rule conjI)
qed

subsection \<open>Construction\<close>

text \<open>
  Claim C9 says that construction succeeds whenever every key of \<^verbatim>\<open>col_to_stype\<close> and the
  target column are columns of the table. It does not: with a target column that is a column
  of the table but no key of \<^verbatim>\<open>col_to_stype\<close>, the property \<^verbatim>\<open>feat_cols\<close> raises the
  \<^verbatim>\<open>ValueError\<close> of \<^verbatim>\<open>list.remove\<close> before the columns are compared.
\<close>

theorem Dataset_init_target_not_a_key:
  "set (map fst (stype_dicts example_no_target_key ! 0)) \<union> {''label''}
     \<subseteq> set (columns example_frame)
   \<and> Dataset_init example_no_target_key example_frame 0 (Some ''label'')
       = (Inl ValueError, example_no_target_key)"
  by (simp add: example_no_target_key_def example_frame_def Dataset_init_def feat_cols_def
                deref_def)

lemma feat_cols_with_target:
  assumes "deref (stype_dicts h) (col_to_stype d) = Some items"
    and "target_col d = None \<or> (\<exists>t. target_col d = Some t \<and> t \<in> fst ` set items)"
  shows "\<exists>fc. feat_cols h d = Inr fc
           \<and> set (fc @ (case target_col d of None \<Rightarrow> [] | Some t \<Rightarrow> [t])) = fst ` set items"
proof (cases "target_col d")
  case None
  with assms show ?thesis by (simp add: feat_cols_def)
next
  case (Some t)
  with assms have t: "t \<in> set (map fst items)" by simp
  have "set (remove1 t (map fst items) @ [t]) = set (map fst items)"
  proof
    show "set (remove1 t (map fst items) @ [t]) \<subseteq> set (map fst items)"
      using t set_remove1_subset [of t "map fst items"] by auto
    show "set (map fst items) \<subseteq> set (remove1 t (map fst items) @ [t])"
    proof
      fix x assume "x \<in> set (map fst items)"
      then show "x \<in> set (remove1 t (map fst items) @ [t])"
        by (cases "x = t") (simp_all add: in_set_remove1)
    qed
  qed
  with Some assms(1) t show ?thesis by (simp add: feat_cols_def)
qed

text \<open>
  Claim C9, amended. When the target column, if set, is a key of \<^verbatim>\<open>col_to_stype\<close>:
  if every key is a column of the table, construction succeeds and the new data set enters
  the store, not materialized and with an empty statistics dictionary; otherwise it raises
  the \<^verbatim>\<open>ValueError\<close> that names exactly the keys that are no columns, and the store is
  unchanged.
\<close>

theorem Dataset_init_checks_columns:
  assumes items: "deref (stype_dicts h) cts = Some items"
    and target: "target = None \<or> (\<exists>t. target = Some t \<and> t \<in> fst ` set items)"
  shows "(fst ` set items \<subseteq> set (columns frame) \<longrightarrow>
            Dataset_init h frame cts target
              = (Inr (length (datasets h)),
                 h\<lparr>datasets := datasets h @
                      [\<lparr>df = frame, col_to_stype = cts, target_col = target,
                        is_materialized_attr = False,
                        col_stats_attr = length (stats_dicts h),
                        tensor_frame_attr = None\<rparr>],
                    stats_dicts := stats_dicts h @ [[]]\<rparr>))
         \<and> (\<not> fst ` set items \<subseteq> set (columns frame) \<longrightarrow>
            Dataset_init h frame cts target
              = (Inl (ValueError_missing_cols (fst ` set items - set (columns frame))), h))"
proof -
  let ?self = "\<lparr>df = frame, col_to_stype = cts, target_col = target,
                 is_materialized_attr = False,
                 col_stats_attr = length (stats_dicts h),
                 tensor_frame_attr = None\<rparr>"
  have "deref (stype_dicts h) (col_to_stype ?self) = Some items"
    using items by simp
  moreover have "target_col ?self = None
                 \<or> (\<exists>t. target_col ?self = Some t \<and> t \<in> fst ` set items)"
    using target by simp
  ultimately obtain fc where fc: "feat_cols h ?self = Inr fc"
    and cols: "set (fc @ (case target_col ?self of None \<Rightarrow> [] | Some t \<Rightarrow> [t])) = fst ` set items"
    using feat_cols_with_target [of h ?self items] by blast
  from cols have cols': "set fc \<union> set (case target of None \<Rightarrow> [] | Some t \<Rightarrow> [t]) = fst ` set items"
    by simp
  show ?thesis
    using fc cols' by (auto simp: Dataset_init_def Let_def)
qed

theorem Dataset_init_checks_columns_witness:
  "Dataset_init example_initial example_frame 0 (Some ''label'') = (Inr 0, example_store)
   \<and> Dataset_init example_missing example_frame 0 (Some ''label'')
       = (Inl (ValueError_missing_cols {''zip''}), example_missing)"
proof -
  have a: "deref (stype_dicts example_initial) 0 = Some example_types"
    by (simp add: example_initial_def deref_def)
  have b: "Some ''label'' = None
           \<or> (\<exists>t. Some ''label'' = Some t \<and> t \<in> fst ` set example_types)"
    by (simp add: example_types_def)
  have c: "fst ` set example_types \<subseteq> set (columns example_frame)"
    by (simp add: example_types_def example_frame_def)
  from Dataset_init_checks_columns [OF a b, of example_frame] c
  have ok: "Dataset_init example_initial example_frame 0 (Some ''label'') = (Inr 0, example_store)"
    by (simp add: example_initial_def example_store_def example_dataset_def)
  let ?items = "[(''age'', numerical), (''zip'', categorical), (''label'', categorical)]"
  have a': "deref (stype_dicts example_missing) 0 = Some ?items"
    by (simp add: example_missing_def deref_def)
  have b': "Some ''label'' = None \<or> (\<exists>t. Some ''label'' = Some t \<and> t \<in> fst ` set ?items)"
    by simp
  have c': "\<not> fst ` set ?items \<subseteq> set (columns example_frame)"
    by (simp add: example_frame_def)
  have m: "fst ` set ?items - set (columns example_frame) = {''zip''}"
    by (auto simp: example_frame_def)
  from Dataset_init_checks_columns [OF a' b', of example_frame] c' m
  have bad: "Dataset_init example_missing example_frame 0 (Some ''label'')
       = (Inl (ValueError_missing_cols {''zip''}), example_missing)"
    by simp
  from ok bad show ?thesis by simp
qed

subsection \<open>Row selection\<close>

lemma map_result_total:
  assumes "\<And>x. x \<in> set xs \<Longrightarrow> f x = Inr (g x)"
  shows "map_result f xs = Inr (map g xs)"
  using assms by (induction xs) simp_all

lemma map_result_length:
  "map_result f xs = Inr ys \<Longrightarrow> length ys = length xs"
  by (induction xs arbitrary: ys) (auto split: sum.splits)

lemma select_rows_positions:
  "list_all (in_bounds (length xs)) ps \<Longrightarrow>
     select_rows xs (Positions ps) = Inr (map (\<lambda>i. xs ! wrap_index (length xs) i) ps)"
  by (simp add: select_rows_def)

lemma select_rows_positions_length:
  "select_rows xs (Positions ps) = Inr ys \<Longrightarrow> length ys = length ps"
  by (auto simp: select_rows_def split: if_splits)



lemma index_select_unguarded:
  assumes "deref (datasets h) self = Some d" "is_materialized_attr d"
  shows "index_select h self ix = index_select_body h self ix"
  using assms by (simp add: index_select_def requires_post_materialization_def is_materialized_def)

lemma index_select_body_success:
  assumes d: "deref (datasets h) self = Some d"
    and frame: "df_iloc (df d) (normalize_index (len h self) ix) = Inr frame"
    and tf: "tensor_frame_attr d = Some tf"
    and tf': "tf_getitem tf (normalize_index (len h self) ix) = Inr tf'"
  shows "index_select_body h self ix =
           (Inr (length (datasets h)),
            h\<lparr>datasets := datasets h @ [d\<lparr>df := frame, tensor_frame_attr := Some tf'\<rparr>]\<rparr>)"
  using assms
  by (simp add: index_select_body_def Let_def copy_dataset_def update_dataset_def)

lemma index_select_body_returns:
  assumes d: "deref (datasets h) self = Some d"
    and res: "index_select_body h self ix = (Inr r, h')"
  shows "\<exists>frame tf tf'.
           df_iloc (df d) (normalize_index (len h self) ix) = Inr frame
           \<and> tensor_frame_attr d = Some tf
           \<and> tf_getitem tf (normalize_index (len h self) ix) = Inr tf'
           \<and> r = length (datasets h)
           \<and> h' = h\<lparr>datasets := datasets h @ [d\<lparr>df := frame, tensor_frame_attr := Some tf'\<rparr>]\<rparr>"
  using assms
  by (auto simp: index_select_body_def Let_def copy_dataset_def update_dataset_def
           split: sum.splits option.splits)

lemma len_of_new:
  "len (h\<lparr>datasets := datasets h @ [d']\<rparr>) (length (datasets h)) = df_len (df d')"
  by (simp add: len_def deref_def)

lemma df_iloc_rows:
  "df_iloc frame sel = Inr frame' \<Longrightarrow>
     select_rows (rows frame) sel = Inr (rows frame') \<and> columns frame' = columns frame"
  by (auto simp: df_iloc_def split: sum.splits)

lemma tf_getitem_total:
  assumes "\<And>c. length c = n \<Longrightarrow> select_rows c sel = Inr (g c)"
    and "tensor_rows n tf"
  shows "tf_getitem tf sel =
           Inr \<lparr>x_dict = map (\<lambda>p. (fst p, map g (snd p))) (x_dict tf),
                col_names_dict = col_names_dict tf,
                tf_y = map_option g (tf_y tf)\<rparr>"
proof -
  have inner: "map_result (\<lambda>c. select_rows c sel) x = Inr (map g x)"
    if "list_all (\<lambda>c. length c = n) x" for x :: "'a cell list list"
    using that assms(1) by (intro map_result_total) (simp add: list_all_iff)
  have outer: "map_result
             (\<lambda>(st, x). case map_result (\<lambda>c. select_rows c sel) x of
                           Inl e \<Rightarrow> Inl e
                         | Inr x' \<Rightarrow> Inr (st, x'))
             (x_dict tf) = Inr (map (\<lambda>p. (fst p, map g (snd p))) (x_dict tf))"
  proof (intro map_result_total)
    fix p assume "p \<in> set (x_dict tf)"
    with assms(2) have "list_all (\<lambda>c. length c = n) (snd p)"
      by (simp add: tensor_rows_def list_all_iff)
    from inner [OF this] show "(case p of (st, x) \<Rightarrow>
             case map_result (\<lambda>c. select_rows c sel) x of
               Inl e \<Rightarrow> Inl e
             | Inr x' \<Rightarrow> Inr (st, x')) = Inr (fst p, map g (snd p))"
      by (cases p) simp
  qed
  show ?thesis
  proof (cases "tf_y tf")
    case None
    with outer show ?thesis by (simp add: tf_getitem_def)
  next
    case (Some t)
    with assms(2) have "length t = n" by (simp add: tensor_rows_def)
    with assms(1) have "select_rows t sel = Inr (g t)" by simp
    with outer Some show ?thesis by (simp add: tf_getitem_def)
  qed
qed

text \<open>
  Claim C5. On a materialized data set, whenever \<^verbatim>\<open>index_select\<close> returns for a list of
  integer positions \<open>ps\<close> (repeats and negative positions allowed), or for an index tensor
  with these entries, the data set it returns has \<open>length ps\<close> rows; for a single integer it
  has one row. And it does return when every position is within the bounds of the table and
  the tensor frame has as many rows as the table (the state \<^verbatim>\<open>materialize\<close> leaves, see
  \<open>tensor_rows\<close>).
\<close>

theorem index_select_row_count:
  assumes d: "deref (datasets h) self = Some d"
    and m: "is_materialized_attr d"
  shows "(\<forall>r h'. index_select h self (List_index ps) = (Inr r, h') \<longrightarrow> len h' r = length ps)
       \<and> (\<forall>r h'. index_select h self (Tensor_index ps) = (Inr r, h') \<longrightarrow> len h' r = length ps)
       \<and> (\<forall>r h'. index_select h self (Int_index i) = (Inr r, h') \<longrightarrow> len h' r = 1)
       \<and> (tensor_frame_attr d = Some tf \<and> tensor_rows (len h self) tf
            \<and> list_all (in_bounds (len h self)) ps \<longrightarrow>
            (\<exists>r h'. index_select h self (List_index ps) = (Inr r, h') \<and> len h' r = length ps))
       \<and> (tensor_frame_attr d = Some tf \<and> tensor_rows (len h self) tf
            \<and> in_bounds (len h self) i \<longrightarrow>
            (\<exists>r h'. index_select h self (Int_index i) = (Inr r, h') \<and> len h' r = 1))"
proof -
  note ug = index_select_unguarded [OF d m]
  have partial: "len h' r = length qs"
    if "index_select h self ix = (Inr r, h')"
      and "normalize_index (len h self) ix = Positions qs" for ix qs r h'
  proof -
    from that(1) have "index_select_body h self ix = (Inr r, h')" by (simp add: ug)
    from index_select_body_returns [OF d this] that(2)
    obtain frame tf0 tf1 where frame: "df_iloc (df d) (Positions qs) = Inr frame"
      and r: "r = length (datasets h)"
      and h': "h' = h\<lparr>datasets := datasets h @ [d\<lparr>df := frame, tensor_frame_attr := Some tf1\<rparr>]\<rparr>"
      by auto
    from df_iloc_rows [OF frame] have "length (rows frame) = length qs"
      by (auto dest: select_rows_positions_length)
    then show ?thesis by (simp add: r h' len_of_new df_len_def)
  qed
  have total: "\<exists>r h'. index_select h self ix = (Inr r, h') \<and> len h' r = length qs"
    if tf: "tensor_frame_attr d = Some tf"
      and rows: "tensor_rows (len h self) tf"
      and inb: "list_all (in_bounds (len h self)) qs"
      and norm: "normalize_index (len h self) ix = Positions qs" for ix qs
  proof -
    let ?n = "len h self"
    have n: "?n = length (rows (df d))" using d by (simp add: len_def df_len_def)
    let ?frame = "\<lparr>columns = columns (df d),
                    rows = map (\<lambda>i. rows (df d) ! wrap_index ?n i) qs\<rparr>"
    have frame: "df_iloc (df d) (normalize_index ?n ix) = Inr ?frame"
      using inb n norm by (simp add: df_iloc_def select_rows_positions)
    have "\<And>c :: 'a cell list. length c = ?n \<Longrightarrow>
            select_rows c (Positions qs) = Inr (map (\<lambda>i. c ! wrap_index ?n i) qs)"
      using inb by (simp add: select_rows_positions)
    from tf_getitem_total [of ?n "Positions qs" "\<lambda>c. map (\<lambda>i. c ! wrap_index ?n i) qs" tf,
                           OF this rows]
    obtain tf' where tf': "tf_getitem tf (normalize_index ?n ix) = Inr tf'"
      by (simp add: norm)
    from index_select_body_success [OF d frame tf tf']
    show ?thesis
      by (simp add: ug len_of_new df_len_def)
  qed
  have a: "\<forall>r h'. index_select h self (List_index ps) = (Inr r, h') \<longrightarrow> len h' r = length ps"
    using partial [of "List_index ps" _ _ ps] by (simp add: normalize_index_def)
  have b: "\<forall>r h'. index_select h self (Tensor_index ps) = (Inr r, h') \<longrightarrow> len h' r = length ps"
    using partial [of "Tensor_index ps" _ _ ps] by (simp add: normalize_index_def)
  have c: "\<forall>r h'. index_select h self (Int_index i) = (Inr r, h') \<longrightarrow> len h' r = 1"
    using partial [of "Int_index i" _ _ "[i]"] by (simp add: normalize_index_def)
  have e: "tensor_frame_attr d = Some tf \<and> tensor_rows (len h self) tf
            \<and> list_all (in_bounds (len h self)) ps \<longrightarrow>
            (\<exists>r h'. index_select h self (List_index ps) = (Inr r, h') \<and> len h' r = length ps)"
    using total [of ps "List_index ps"] by (simp add: normalize_index_def)
  have f: "tensor_frame_attr d = Some tf \<and> tensor_rows (len h self) tf
            \<and> in_bounds (len h self) i \<longrightarrow>
            (\<exists>r h'. index_select h self (Int_index i) = (Inr r, h') \<and> len h' r = 1)"
    using total [of "[i]" "Int_index i"] by (simp add: normalize_index_def)
  from a b c e f show ?thesis by blast
qed


theorem index_select_row_count_witness:
  "(\<exists>h'. index_select example_materialized 0 (List_index [2, 2, - 1, 0]) = (Inr 1, h')
          \<and> len h' 1 = 4)
   \<and> (\<exists>h'. index_select example_materialized 0 (Tensor_index [2, 2, - 1, 0]) = (Inr 1, h')
          \<and> len h' 1 = 4)
   \<and> (\<exists>h'. index_select example_materialized 0 (Int_index 1) = (Inr 1, h') \<and> len h' 1 = 1)
   \<and> tensor_rows (len example_materialized 0) example_tensor_frame
   \<and> list_all (in_bounds (len example_materialized 0)) [2, 2, - 1, 0]
   \<and> (\<exists>r h'. index_select example_materialized 0 (List_index [2, 2, - 1, 0]) = (Inr r, h')
            \<and> len h' r = 4)"
proof -
  let ?d = "example_dataset\<lparr>tensor_frame_attr := Some example_tensor_frame,
                            is_materialized_attr := True\<rparr>"
  have d: "deref (datasets example_materialized) 0 = Some ?d"
    by (simp add: example_materialized_def deref_def)
  have m: "is_materialized_attr ?d" by simp
  have n: "len example_materialized 0 = 3"
    by (simp add: len_def d df_len_def example_dataset_def example_frame_def)
  have tf: "tensor_frame_attr ?d = Some example_tensor_frame" by simp
  have rows: "tensor_rows (len example_materialized 0) example_tensor_frame"
    by (simp add: n tensor_rows_def example_tensor_frame_def)
  have inb: "list_all (in_bounds (len example_materialized 0)) [2, 2, - 1, 0]"
    by (simp add: n in_bounds_def)
  have inb1: "in_bounds (len example_materialized 0) 1"
    by (simp add: n in_bounds_def)
  note inst = index_select_row_count [OF d m, of "[2, 2, - 1, 0]" 1 example_tensor_frame]
  have "fst (index_select example_materialized 0 (List_index [2, 2, - 1, 0])) = Inr 1"
    by code_simp
  then obtain h1 where
    r1: "index_select example_materialized 0 (List_index [2, 2, - 1, 0]) = (Inr 1, h1)"
    by (cases "index_select example_materialized 0 (List_index [2, 2, - 1, 0])") simp
  with inst have l1: "len h1 1 = 4" by simp
  have "fst (index_select example_materialized 0 (Tensor_index [2, 2, - 1, 0])) = Inr 1"
    by code_simp
  then obtain h2 where
    r2: "index_select example_materialized 0 (Tensor_index [2, 2, - 1, 0]) = (Inr 1, h2)"
    by (cases "index_select example_materialized 0 (Tensor_index [2, 2, - 1, 0])") simp
  with inst have l2: "len h2 1 = 4" by simp
  have "fst (index_select example_materialized 0 (Int_index 1)) = Inr 1"
    by code_simp
  then obtain h3 where r3: "index_select example_materialized 0 (Int_index 1) = (Inr 1, h3)"
    by (cases "index_select example_materialized 0 (Int_index 1)") simp
  with inst have l3: "len h3 1 = 1" by simp
  from inst tf rows inb
  have total: "\<exists>r h'. index_select example_materialized 0 (List_index [2, 2, - 1, 0]) = (Inr r, h')
            \<and> len h' r = 4"
    by (simp add: eval_nat_numeral)
  from r1 l1 r2 l2 r3 l3 rows inb total show ?thesis by blast
qed








subsection \<open>The statistics and the tensor of a binary target\<close>

lemma stats_setitem_lookup:
  "p < length (stats_dicts h) \<Longrightarrow>
     map_of (stats_dicts (stats_setitem h p col cs) ! p) = (map_of (stats_dicts h ! p))(col \<mapsto> cs)"
  by (simp add: stats_setitem_def AList.update_conv')

lemma fill_col_stats_other:
  assumes "fill_col_stats ccs frame p items h = (r, h1)"
    and "p < length (stats_dicts h)"
    and "k \<notin> fst ` set items"
  shows "map_of (stats_dicts h1 ! p) k = map_of (stats_dicts h ! p) k"
  using assms
proof (induction items arbitrary: h)
  case Nil
  then show ?case by simp
next
  case (Cons a items)
  obtain col st where a: "a = (col, st)" by (cases a)
  from Cons.prems(3) a have ne: "k \<noteq> col" and k: "k \<notin> fst ` set items" by auto
  show ?case
  proof (cases "df_getitem frame col")
    case (Inl e)
    with Cons.prems a show ?thesis by simp
  next
    case ser: (Inr ser)
    show ?thesis
    proof (cases "ccs ser st")
      case (Inl e)
      with Cons.prems a ser show ?thesis by simp
    next
      case (Inr cs)
      with Cons.prems(1) a ser
      have run: "fill_col_stats ccs frame p items (stats_setitem h p col cs) = (r, h1)" by simp
      have "p < length (stats_dicts (stats_setitem h p col cs))"
        using Cons.prems(2) by simp
      from Cons.IH [OF run this k] ne Cons.prems(2) show ?thesis
        by (simp add: stats_setitem_lookup)
    qed
  qed
qed

lemma fill_col_stats_stored:
  assumes "fill_col_stats ccs frame p items h = (Inr u, h1)"
    and "p < length (stats_dicts h)"
    and "distinct (map fst items)"
    and "(col, st) \<in> set items"
  shows "\<exists>ser cs. df_getitem frame col = Inr ser \<and> ccs ser st = Inr cs
           \<and> map_of (stats_dicts h1 ! p) col = Some cs"
  using assms
proof (induction items arbitrary: h)
  case Nil
  then show ?case by simp
next
  case (Cons a items)
  obtain c0 st0 where a: "a = (c0, st0)" by (cases a)
  from Cons.prems(1) a obtain ser0 where ser0: "df_getitem frame c0 = Inr ser0"
    by (cases "df_getitem frame c0") simp_all
  from Cons.prems(1) a ser0 obtain cs0 where cs0: "ccs ser0 st0 = Inr cs0"
    by (cases "ccs ser0 st0") simp_all
  from Cons.prems(1) a ser0 cs0
  have run: "fill_col_stats ccs frame p items (stats_setitem h p c0 cs0) = (Inr u, h1)" by simp
  have p': "p < length (stats_dicts (stats_setitem h p c0 cs0))"
    using Cons.prems(2) by simp
  from Cons.prems(3) a have dist: "distinct (map fst items)" and fresh: "c0 \<notin> fst ` set items"
    by auto
  show ?case
  proof (cases "(col, st) = (c0, st0)")
    case True
    from fill_col_stats_other [OF run p' fresh] Cons.prems(2)
    have "map_of (stats_dicts h1 ! p) c0 = Some cs0"
      by (simp add: stats_setitem_lookup)
    with True ser0 cs0 show ?thesis by auto
  next
    case False
    with Cons.prems(4) a have "(col, st) \<in> set items" by auto
    from Cons.IH [OF run p' dist this] show ?thesis .
  qed
qed

lemma select_mapper_other:
  assumes "select_mapper d col st h = (r, h')"
    and "k \<noteq> col"
  shows "map_of (stats_dicts h' ! col_stats_attr d) k = map_of (stats_dicts h ! col_stats_attr d) k"
proof (cases "col_stats_attr d < length (stats_dicts h)")
  case True
  with assms show ?thesis
    by (auto simp: select_mapper_def stats_setitem_lookup deref_def
             split: stype.splits option.splits stat_value.splits if_splits sum.splits)
next
  case False
  with assms show ?thesis
    by (auto simp: select_mapper_def deref_def split: stype.splits)
qed

lemma select_mapper_not_target:
  assumes "select_mapper d col st h = (r, h')"
    and "Some col \<noteq> target_col d"
  shows "h' = h"
  using assms
  by (auto simp: select_mapper_def
           split: stype.splits option.splits stat_value.splits if_splits sum.splits)

lemma to_tensor_frame_loop_other:
  assumes "to_tensor_frame_loop d items s h = (r, h')"
    and "k \<notin> fst ` set items"
  shows "map_of (stats_dicts h' ! col_stats_attr d) k = map_of (stats_dicts h ! col_stats_attr d) k"
  using assms
proof (induction items arbitrary: s h)
  case Nil
  then show ?case by simp
next
  case (Cons a items)
  obtain col st where a: "a = (col, st)" by (cases a)
  from Cons.prems(2) a have ne: "k \<noteq> col" and k: "k \<notin> fst ` set items" by auto
  obtain rm hm where sm: "select_mapper d col st h = (rm, hm)"
    by (cases "select_mapper d col st h")
  note keep = select_mapper_other [OF sm ne]
  show ?case
  proof (cases rm)
    case (Inl e)
    with Cons.prems a sm keep show ?thesis by simp
  next
    case (Inr mapper)
    show ?thesis
    proof (cases "df_getitem (df d) col")
      case (Inl e)
      with Cons.prems a sm Inr keep show ?thesis by simp
    next
      case ser: (Inr ser)
      show ?thesis
      proof (cases "Some col = target_col d")
        case True
        with Cons.prems(1) a sm Inr ser
        have "to_tensor_frame_loop d items (s\<lparr>y_local := Some (forward mapper ser)\<rparr>) hm = (r, h')"
          by simp
        from Cons.IH [OF this k] keep show ?thesis by simp
      next
        case False
        with Cons.prems(1) a sm Inr ser
        have "to_tensor_frame_loop d items
                (s\<lparr>xs_dict := dd_append (xs_dict s) st (forward mapper ser),
                   names_dict := dd_append (names_dict s) st col\<rparr>) hm = (r, h')"
          by simp
        from Cons.IH [OF this k] keep show ?thesis by simp
      qed
    qed
  qed
qed

lemma to_tensor_frame_loop_keeps_y:
  assumes "to_tensor_frame_loop d items s h = (Inr s', h')"
    and "target_col d = Some t"
    and "t \<notin> fst ` set items"
  shows "y_local s' = y_local s"
  using assms
proof (induction items arbitrary: s h)
  case Nil
  then show ?case by simp
next
  case (Cons a items)
  obtain col st where a: "a = (col, st)" by (cases a)
  from Cons.prems(3) a have ne: "t \<noteq> col" and k: "t \<notin> fst ` set items" by auto
  with Cons.prems(2) have nt: "Some col \<noteq> target_col d" by auto
  obtain rm hm where sm: "select_mapper d col st h = (rm, hm)"
    by (cases "select_mapper d col st h")
  from Cons.prems(1) a sm obtain mapper where rm: "rm = Inr mapper"
    by (cases rm) simp_all
  from Cons.prems(1) a sm rm obtain ser where ser: "df_getitem (df d) col = Inr ser"
    by (cases "df_getitem (df d) col") simp_all
  from Cons.prems(1) a sm rm ser nt
  have "to_tensor_frame_loop d items
          (s\<lparr>xs_dict := dd_append (xs_dict s) st (forward mapper ser),
             names_dict := dd_append (names_dict s) st col\<rparr>) hm = (Inr s', h')"
    by simp
  from Cons.IH [OF this Cons.prems(2) k] show ?case by simp
qed

lemma select_mapper_target:
  assumes "select_mapper d t categorical h = (Inr mapper, h')"
    and "target_col d = Some t"
    and "col_stats_attr d < length (stats_dicts h)"
    and "map_of (stats_dicts h ! col_stats_attr d) t = Some cs"
    and "map_of cs COUNT = Some (Tuple index value)"
    and "length index = 2"
  shows "\<exists>index' value'.
           sort_index index value = Inr (index', value')
           \<and> mapper = CategoricalTensorMapper index'
           \<and> map_of (stats_dicts h' ! col_stats_attr d) t
               = Some (AList.update COUNT (Tuple index' value') cs)"
  using assms
  by (auto simp: select_mapper_def deref_def stats_setitem_lookup split: sum.splits)

lemma to_tensor_frame_loop_target:
  assumes "to_tensor_frame_loop d items s h = (Inr s', h')"
    and "distinct (map fst items)"
    and "(t, categorical) \<in> set items"
    and "target_col d = Some t"
    and "col_stats_attr d < length (stats_dicts h)"
    and "map_of (stats_dicts h ! col_stats_attr d) t = Some cs"
    and "map_of cs COUNT = Some (Tuple index value)"
    and "length index = 2"
    and "df_getitem (df d) t = Inr ser"
  shows "\<exists>index' value'.
           sort_index index value = Inr (index', value')
           \<and> map_of (stats_dicts h' ! col_stats_attr d) t
               = Some (AList.update COUNT (Tuple index' value') cs)
           \<and> y_local s' = Some (forward (CategoricalTensorMapper index') ser)"
  using assms(1,2,3,5,6)
proof (induction items arbitrary: s h)
  case Nil
  then show ?case by simp
next
  case (Cons a items)
  obtain col st where a: "a = (col, st)" by (cases a)
  obtain rm hm where sm: "select_mapper d col st h = (rm, hm)"
    by (cases "select_mapper d col st h")
  from Cons.prems(1) a sm obtain mapper where rm: "rm = Inr mapper"
    by (cases rm) simp_all
  from Cons.prems(1) a sm rm obtain ser0 where ser0: "df_getitem (df d) col = Inr ser0"
    by (cases "df_getitem (df d) col") simp_all
  from Cons.prems(2) a have dist: "distinct (map fst items)" and fresh: "col \<notin> fst ` set items"
    by auto
  from select_mapper_frame [OF sm] Cons.prems(4)
  have pm: "col_stats_attr d < length (stats_dicts hm)" by simp
  show ?case
  proof (cases "col = t")
    case True
    with Cons.prems(2,3) a have st: "st = categorical"
      by (auto simp: image_iff)
    from sm rm True st have "select_mapper d t categorical h = (Inr mapper, hm)" by simp
    from select_mapper_target [OF this assms(4) Cons.prems(4,5) assms(7,8)]
    obtain index' value' where sorted: "sort_index index value = Inr (index', value')"
      and mapper: "mapper = CategoricalTensorMapper index'"
      and stored: "map_of (stats_dicts hm ! col_stats_attr d) t
                     = Some (AList.update COUNT (Tuple index' value') cs)"
      by blast
    from Cons.prems(1) a sm rm ser0 True assms(4)
    have run: "to_tensor_frame_loop d items (s\<lparr>y_local := Some (forward mapper ser0)\<rparr>) hm
                 = (Inr s', h')"
      by simp
    from fresh True have t: "t \<notin> fst ` set items" by simp
    from to_tensor_frame_loop_other [OF run t] stored
    have 1: "map_of (stats_dicts h' ! col_stats_attr d) t
               = Some (AList.update COUNT (Tuple index' value') cs)" by simp
    from to_tensor_frame_loop_keeps_y [OF run assms(4) t]
    have "y_local s' = Some (forward mapper ser0)" by simp
    with mapper ser0 True assms(9)
    have 2: "y_local s' = Some (forward (CategoricalTensorMapper index') ser)" by simp
    from sorted 1 2 show ?thesis by blast
  next
    case False
    with assms(4) have nt: "Some col \<noteq> target_col d" by auto
    from select_mapper_not_target [OF sm nt] have hm: "hm = h" .
    from Cons.prems(1) a sm rm ser0 nt
    have run: "to_tensor_frame_loop d items
          (s\<lparr>xs_dict := dd_append (xs_dict s) st (forward mapper ser0),
             names_dict := dd_append (names_dict s) st col\<rparr>) h = (Inr s', h')"
      by (simp add: hm)
    from Cons.prems(3) a False have mem: "(t, categorical) \<in> set items" by auto
    from Cons.IH [OF run dist mem Cons.prems(4,5)] show ?thesis .
  qed
qed

lemma sort_index_sorted:
  assumes "sort_index index value = Inr (index', value')"
  shows "sorted index' \<and> mset (zip index' value') = mset (zip index value)
         \<and> length index' = length index \<and> length value' = length index"
proof -
  from assms have len: "length value = length index"
    and i: "index' = map fst (sort_key fst (zip index value))"
    and v: "value' = map snd (sort_key fst (zip index value))"
    by (auto simp: sort_index_def Let_def split: if_splits)
  have "sorted index'" by (simp add: i sorted_sort_key)
  moreover have "zip index' value' = sort_key fst (zip index value)"
    by (simp add: i v zip_map_fst_snd)
  then have "mset (zip index' value') = mset (zip index value)" by simp
  moreover have "length index' = length index" "length value' = length index"
    using len by (simp_all add: i v)
  ultimately show ?thesis by simp
qed

lemma update_dataset_frame [simp]:
  "stype_dicts (update_dataset h a f) = stype_dicts h"
  "stats_dicts (update_dataset h a f) = stats_dicts h"
  "str_lists (update_dataset h a f) = str_lists h"
  "length (datasets (update_dataset h a f)) = length (datasets h)"
  by (simp_all add: update_dataset_def)

lemma materialize_first_run:
  assumes d: "deref (datasets h) self = Some d"
    and unmat: "\<not> is_materialized_attr d"
    and res: "materialize ccs h self = (Inr r, h')"
  shows "\<exists>items u h1 s tf.
           deref (stype_dicts h) (col_to_stype d) = Some items
           \<and> fill_col_stats ccs (df d) (col_stats_attr d) items h = (Inr u, h1)
           \<and> to_tensor_frame_loop d items \<lparr>xs_dict = [], names_dict = [], y_local = None\<rparr> h1
               = (Inr s, h1\<lparr>stats_dicts := stats_dicts h'\<rparr>)
           \<and> map_result (\<lambda>(st, xs). case stack xs of Inl e \<Rightarrow> Inl e | Inr x \<Rightarrow> Inr (st, x))
                 (xs_dict s) = Inr (x_dict tf)
           \<and> col_names_dict tf = names_dict s
           \<and> tf_y tf = y_local s
           \<and> stype_dicts h' = stype_dicts h
           \<and> str_lists h' = str_lists h
           \<and> datasets h' = (datasets h)[self := d\<lparr>tensor_frame_attr := Some tf,
                                                 is_materialized_attr := True\<rparr>]"
proof -
  from d have self: "self < length (datasets h)" "datasets h ! self = d"
    by (auto simp: deref_def split: if_splits)
  from d unmat have nm: "\<not> is_materialized h self" by (simp add: is_materialized_def)
  from res d nm obtain items where items: "deref (stype_dicts h) (col_to_stype d) = Some items"
    by (auto simp: materialize_def split: option.splits)
  obtain r1 h1 where s1: "fill_col_stats ccs (df d) (col_stats_attr d) items h = (r1, h1)"
    by (cases "fill_col_stats ccs (df d) (col_stats_attr d) items h")
  from res d nm items s1 obtain u where r1: "r1 = Inr u"
    by (cases r1) (simp_all add: materialize_def)
  note f1 = fill_col_stats_frame [OF s1]
  obtain r2 h2 where s2: "to_tensor_frame h1 self = (r2, h2)"
    by (cases "to_tensor_frame h1 self")
  from res d nm items s1 r1 s2 obtain tf where r2: "r2 = Inr tf"
    and h': "h' = update_dataset (update_dataset h2 self (\<lambda>d. d\<lparr>tensor_frame_attr := Some tf\<rparr>))
               self (\<lambda>d. d\<lparr>is_materialized_attr := True\<rparr>)"
    by (cases r2) (auto simp: materialize_def)
  note f2 = to_tensor_frame_frame [OF s2]
  from d f1 have d1: "deref (datasets h1) self = Some d" by (simp add: deref_def)
  from items f1 have i1: "deref (stype_dicts h1) (col_to_stype d) = Some items"
    by (simp add: deref_def)
  obtain r3 h3 where s3: "to_tensor_frame_loop d items
            \<lparr>xs_dict = [], names_dict = [], y_local = None\<rparr> h1 = (r3, h3)"
    by (cases "to_tensor_frame_loop d items \<lparr>xs_dict = [], names_dict = [], y_local = None\<rparr> h1")
  from s2 r2 d1 i1 s3 obtain s where r3: "r3 = Inr s"
    by (cases r3) (simp_all add: to_tensor_frame_def)
  from s2 r2 d1 i1 s3 r3 have h2: "h2 = h3"
    and stacked: "map_result (\<lambda>(st, xs). case stack xs of Inl e \<Rightarrow> Inl e | Inr x \<Rightarrow> Inr (st, x))
                 (xs_dict s) = Inr (x_dict tf)"
    and names: "col_names_dict tf = names_dict s"
    and y: "tf_y tf = y_local s"
    by (auto simp: to_tensor_frame_def split: sum.splits)
  note f3 = to_tensor_frame_loop_frame [OF s3]
  have "h3 = h1\<lparr>stats_dicts := stats_dicts h'\<rparr>"
    using f3 by (simp add: h' h2)
  with s3 r3 have loop: "to_tensor_frame_loop d items
            \<lparr>xs_dict = [], names_dict = [], y_local = None\<rparr> h1
               = (Inr s, h1\<lparr>stats_dicts := stats_dicts h'\<rparr>)" by simp
  have ds: "datasets h' = (datasets h)[self := d\<lparr>tensor_frame_attr := Some tf,
                                                 is_materialized_attr := True\<rparr>]"
    using self f1 f2 by (simp add: h' update_dataset_def)
  have "stype_dicts h' = stype_dicts h" "str_lists h' = str_lists h"
    using f1 f2 by (simp_all add: h')
  with items s1 r1 loop stacked names y ds show ?thesis by blast
qed

lemma to_tensor_frame_loop_needs_stats:
  assumes "to_tensor_frame_loop d items s h = (Inr s', h')"
    and "(c, categorical) \<in> set items"
  shows "col_stats_attr d < length (stats_dicts h)"
  using assms
proof (induction items arbitrary: s h)
  case Nil
  then show ?case by simp
next
  case (Cons a items)
  obtain col st where a: "a = (col, st)" by (cases a)
  obtain rm hm where sm: "select_mapper d col st h = (rm, hm)"
    by (cases "select_mapper d col st h")
  from Cons.prems(1) a sm obtain mapper where rm: "rm = Inr mapper"
    by (cases rm) simp_all
  from Cons.prems(1) a sm rm obtain ser0 where ser0: "df_getitem (df d) col = Inr ser0"
    by (cases "df_getitem (df d) col") simp_all
  show ?case
  proof (cases "st = categorical")
    case True
    with sm rm show ?thesis
      by (auto simp: select_mapper_def deref_def split: if_splits)
  next
    case False
    with Cons.prems(2) a have mem: "(c, categorical) \<in> set items" by auto
    from Cons.prems(1) a sm rm ser0
    obtain s0 where "to_tensor_frame_loop d items s0 hm = (Inr s', h')"
      by (cases "Some col = target_col d") simp_all
    from Cons.IH [OF this mem] select_mapper_frame [OF sm] show ?thesis by simp
  qed
qed

text \<open>
  Claim C1. Take a data set, not yet materialized, whose target column \<open>t\<close> is categorical
  and for which the statistics calculator lists exactly two categories under \<^verbatim>\<open>COUNT\<close>.
  After a \<^verbatim>\<open>materialize\<close> that returned, the pair stored for \<open>t\<close> under \<^verbatim>\<open>COUNT\<close> in the
  dictionary that \<^verbatim>\<open>col_stats\<close> returns has its categories in ascending order (for strings:
  lexicographic), whatever order the calculator gave them; it is a rearrangement of the
  calculator's category and count pairs; and the target tensor of the tensor frame is the
  categorical mapper constructed from these stored, sorted categories, applied to the
  column.
\<close>

theorem binary_target_sorted:
  assumes d: "deref (datasets h) self = Some d"
    and unmat: "\<not> is_materialized_attr d"
    and items: "deref (stype_dicts h) (col_to_stype d) = Some items"
    and dist: "distinct (map fst items)"
    and t: "target_col d = Some t"
    and cat: "(t, categorical) \<in> set items"
    and ser: "df_getitem (df d) t = Inr ser"
    and cs: "compute_col_stats ser categorical = Inr cs"
    and cnt: "map_of cs COUNT = Some (Tuple index value)"
    and two: "length index = 2"
    and res: "materialize compute_col_stats h self = (Inr r, h')"
  shows "\<exists>p stats cs' index' value' tf.
           col_stats h' self = (Inr p, h')
           \<and> deref (stats_dicts h') p = Some stats
           \<and> map_of stats t = Some cs'
           \<and> map_of cs' COUNT = Some (Tuple index' value')
           \<and> sorted index'
           \<and> mset (zip index' value') = mset (zip index value)
           \<and> tensor_frame h' self = (Inr (Some tf), h')
           \<and> tf_y tf = Some (forward (CategoricalTensorMapper index') ser)"
proof -
  let ?p = "col_stats_attr d"
  from materialize_first_run [OF d unmat res] items
  obtain u h1 s tf where
    s1: "fill_col_stats compute_col_stats (df d) ?p items h = (Inr u, h1)"
    and loop: "to_tensor_frame_loop d items \<lparr>xs_dict = [], names_dict = [], y_local = None\<rparr> h1
               = (Inr s, h1\<lparr>stats_dicts := stats_dicts h'\<rparr>)"
    and y: "tf_y tf = y_local s"
    and ds: "datasets h' = (datasets h)[self := d\<lparr>tensor_frame_attr := Some tf,
                                                 is_materialized_attr := True\<rparr>]"
    by auto
  from d have self: "self < length (datasets h)"
    by (auto simp: deref_def split: if_splits)
  from to_tensor_frame_loop_needs_stats [OF loop cat]
  have p1: "?p < length (stats_dicts h1)" .
  with fill_col_stats_frame [OF s1] have p: "?p < length (stats_dicts h)" by simp
  from fill_col_stats_stored [OF s1 p dist cat] ser cs
  have stored: "map_of (stats_dicts h1 ! ?p) t = Some cs" by simp
  from to_tensor_frame_loop_target [OF loop dist cat t p1 stored cnt two ser]
  obtain index' value' where
    sorted: "sort_index index value = Inr (index', value')"
    and final: "map_of (stats_dicts h' ! ?p) t = Some (AList.update COUNT (Tuple index' value') cs)"
    and ys: "y_local s = Some (forward (CategoricalTensorMapper index') ser)"
    by auto
  from to_tensor_frame_loop_frame [OF loop] p1 have p': "?p < length (stats_dicts h')" by simp
  let ?d' = "d\<lparr>tensor_frame_attr := Some tf, is_materialized_attr := True\<rparr>"
  have d': "deref (datasets h') self = Some ?d'"
    using self by (simp add: ds deref_def)
  have 1: "col_stats h' self = (Inr ?p, h')"
    using d' by (simp add: col_stats_def requires_post_materialization_def is_materialized_def)
  have 2: "deref (stats_dicts h') ?p = Some (stats_dicts h' ! ?p)"
    using p' by (simp add: deref_def)
  have 3: "map_of (AList.update COUNT (Tuple index' value') cs) COUNT = Some (Tuple index' value')"
    by (simp add: AList.update_conv')
  have 4: "tensor_frame h' self = (Inr (Some tf), h')"
    using d' by (simp add: tensor_frame_def requires_post_materialization_def is_materialized_def)
  from sort_index_sorted [OF sorted]
  have 5: "sorted index'" and 6: "mset (zip index' value') = mset (zip index value)"
    by simp_all
  from 1 2 final 3 5 6 4 y ys show ?thesis
    by (intro exI [of _ ?p] exI [of _ "stats_dicts h' ! ?p"]
              exI [of _ "AList.update COUNT (Tuple index' value') cs"]
              exI [of _ index'] exI [of _ value'] exI [of _ tf]) simp
qed

theorem binary_target_sorted_witness:
  "spec_compute_col_stats (\<lambda>ser. []) [''yes'', ''yes'', ''no''] categorical
     = Inr [(COUNT, Tuple [''yes'', ''no''] [2, 1])]
   \<and> materialize (spec_compute_col_stats (\<lambda>ser. [])) example_text_store 0
       = (Inr 0, example_text_materialized)
   \<and> (\<exists>p stats cs' tf.
         col_stats example_text_materialized 0 = (Inr p, example_text_materialized)
         \<and> deref (stats_dicts example_text_materialized) p = Some stats
         \<and> map_of stats ''label'' = Some cs'
         \<and> map_of cs' COUNT = Some (Tuple [''no'', ''yes''] [1, 2])
         \<and> tensor_frame example_text_materialized 0
             = (Inr (Some tf), example_text_materialized)
         \<and> tf_y tf = Some [Category 1, Category 1, Category 0])"
proof -
  let ?ccs = "spec_compute_col_stats (\<lambda>ser. []) ::
                string list \<Rightarrow> stype \<Rightarrow> error + string col_stats"
  have d: "deref (datasets example_text_store) 0 = Some example_text_dataset"
    by (simp add: example_text_store_def deref_def)
  have unmat: "\<not> is_materialized_attr example_text_dataset"
    by (simp add: example_text_dataset_def)
  have items: "deref (stype_dicts example_text_store) (col_to_stype example_text_dataset)
                 = Some [(''city'', categorical), (''label'', categorical)]"
    by (simp add: example_text_store_def example_text_dataset_def deref_def)
  have dist: "distinct (map fst [(''city'', categorical), (''label'', categorical)])"
    by simp
  have t: "target_col example_text_dataset = Some ''label''"
    by (simp add: example_text_dataset_def)
  have cat: "(''label'', categorical) \<in> set [(''city'', categorical), (''label'', categorical)]"
    by simp
  have ser: "df_getitem (df example_text_dataset) ''label'' = Inr [''yes'', ''yes'', ''no'']"
    by (simp add: example_text_dataset_def df_getitem_def)
  have cs: "?ccs [''yes'', ''yes'', ''no''] categorical
              = Inr [(COUNT, Tuple [''yes'', ''no''] [2, 1])]"
    by code_simp
  have cnt: "map_of [(COUNT, Tuple [''yes'', ''no''] [2, 1])] COUNT
               = Some (Tuple [''yes'', ''no''] [2, 1])"
    by simp
  have two: "length [''yes'', ''no''] = 2" by simp
  have res: "materialize ?ccs example_text_store 0 = (Inr 0, example_text_materialized)"
    by code_simp
  from binary_target_sorted [OF d unmat items dist t cat ser cs cnt two res]
  have "\<exists>p stats cs' tf.
         col_stats example_text_materialized 0 = (Inr p, example_text_materialized)
         \<and> deref (stats_dicts example_text_materialized) p = Some stats
         \<and> map_of stats ''label'' = Some cs'
         \<and> map_of cs' COUNT = Some (Tuple [''no'', ''yes''] [1, 2])
         \<and> tensor_frame example_text_materialized 0
             = (Inr (Some tf), example_text_materialized)
         \<and> tf_y tf = Some [Category 1, Category 1, Category 0]"
  proof (elim exE conjE)
    fix p stats cs' index' value' tf
    assume 1: "col_stats example_text_materialized 0 = (Inr p, example_text_materialized)"
      and 2: "deref (stats_dicts example_text_materialized) p = Some stats"
      and 3: "map_of stats ''label'' = Some cs'"
      and 4: "map_of cs' COUNT = Some (Tuple index' value')"
      and 5: "tensor_frame example_text_materialized 0
                = (Inr (Some tf), example_text_materialized)"
      and 6: "tf_y tf = Some (forward (CategoricalTensorMapper index') [''yes'', ''yes'', ''no''])"
    from 1 have p: "p = 0"
      by (simp add: col_stats_def requires_post_materialization_def is_materialized_def
                    example_text_materialized_def example_text_dataset_def deref_def)
    from 2 p have stats: "stats = [(''city'', [(COUNT, Tuple [''NY'', ''LA''] [2, 1])]),
                                    (''label'', [(COUNT, Tuple [''no'', ''yes''] [1, 2])])]"
      by (simp add: example_text_materialized_def deref_def)
    from 3 stats have cs': "cs' = [(COUNT, Tuple [''no'', ''yes''] [1, 2])]" by simp
    from 4 cs' have iv: "index' = [''no'', ''yes'']" "value' = [1, 2]" by simp_all
    from 6 iv have y: "tf_y tf = Some [Category 1, Category 1, Category 0]" by simp
    from 1 2 3 4 5 y iv show ?thesis by blast
  qed
  with cs res show ?thesis by simp
qed

subsection \<open>A semantic type without calculator and mapper\<close>

lemma fill_col_stats_ok:
  assumes "list_all (calculator_ok ccs frame) items"
  shows "(\<exists>c v h1. (c, other_stype v) \<in> set items
            \<and> fill_col_stats ccs frame p items h = (Inl (NotImplementedError v), h1))
         \<or> (\<exists>h1. fill_col_stats ccs frame p items h = (Inr (), h1))"
  using assms
proof (induction items arbitrary: h)
  case Nil
  then show ?case by simp
next
  case (Cons a items)
  obtain col st where a: "a = (col, st)" by (cases a)
  from Cons.prems a have ok: "calculator_ok ccs frame (col, st)"
    and rest: "list_all (calculator_ok ccs frame) items" by simp_all
  from ok obtain ser where ser: "df_getitem frame col = Inr ser"
    by (cases "df_getitem frame col") (simp_all add: calculator_ok_def)
  show ?case
  proof (cases "ccs ser st")
    case (Inl e)
    with ok ser obtain v where "st = other_stype v" "e = NotImplementedError v"
      by (cases st) (simp_all add: calculator_ok_def)
    with a ser Inl show ?thesis by auto
  next
    case (Inr cs)
    from Cons.IH [OF rest, of "stats_setitem h p col cs"] a ser Inr
    show ?thesis by auto
  qed
qed

lemma select_mapper_categorical_ok:
  assumes "col_stats_attr d < length (stats_dicts h)"
    and "map_of (stats_dicts h ! col_stats_attr d) col = Some cs"
    and "map_of cs COUNT = Some (Tuple index value)"
    and "length value = length index"
  shows "\<exists>mapper hm. select_mapper d col categorical h = (Inr mapper, hm)"
  using assms by (simp add: select_mapper_def deref_def sort_index_def Let_def)

lemma to_tensor_frame_loop_unsupported:
  assumes "distinct (map fst items)"
    and "col_stats_attr d < length (stats_dicts h)"
    and "\<forall>col st. (col, st) \<in> set items \<longrightarrow> col \<in> set (columns (df d))"
    and "\<forall>col. (col, categorical) \<in> set items \<longrightarrow>
           (\<exists>cs index value. map_of (stats_dicts h ! col_stats_attr d) col = Some cs
              \<and> map_of cs COUNT = Some (Tuple index value) \<and> length value = length index)"
    and "(c, other_stype v) \<in> set items"
  shows "\<exists>c' v' h'. (c', other_stype v') \<in> set items
           \<and> to_tensor_frame_loop d items s h = (Inl (NotImplementedError v'), h')"
  using assms
proof (induction items arbitrary: s h)
  case Nil
  then show ?case by simp
next
  case (Cons a items)
  obtain col st where a: "a = (col, st)" by (cases a)
  from Cons.prems(1) a have dist: "distinct (map fst items)" and fresh: "col \<notin> fst ` set items"
    by auto
  from Cons.prems(3) a have "col \<in> set (columns (df d))" by simp
  then obtain ser where ser: "df_getitem (df d) col = Inr ser"
    by (simp add: df_getitem_def)
  show ?case
  proof (cases st)
    case (other_stype v0)
    with a show ?thesis by (auto simp: select_mapper_def)
  next
    case numerical
    with Cons.prems(5) a have mem: "(c, other_stype v) \<in> set items" by auto
    have sm: "select_mapper d col numerical h = (Inr NumericalTensorMapper, h)"
      by (simp add: select_mapper_def)
    have cols: "\<forall>col st. (col, st) \<in> set items \<longrightarrow> col \<in> set (columns (df d))"
      using Cons.prems(3) a by auto
    have stats: "\<forall>k. (k, categorical) \<in> set items \<longrightarrow>
           (\<exists>cs index value. map_of (stats_dicts h ! col_stats_attr d) k = Some cs
              \<and> map_of cs COUNT = Some (Tuple index value) \<and> length value = length index)"
      using Cons.prems(4) by auto
    have "\<exists>c' v' h'. (c', other_stype v') \<in> set items
           \<and> to_tensor_frame_loop d items s0 h = (Inl (NotImplementedError v'), h')" for s0
      using Cons.IH [OF dist Cons.prems(2) cols stats mem] by blast
    with a numerical sm ser show ?thesis
      by (cases "Some col = target_col d") (auto simp: Let_def)
  next
    case categorical
    with Cons.prems(5) a have mem: "(c, other_stype v) \<in> set items" by auto
    from Cons.prems(4) a categorical
    obtain cs ix vs where "map_of (stats_dicts h ! col_stats_attr d) col = Some cs"
      "map_of cs COUNT = Some (Tuple ix vs)" "length vs = length ix"
      by auto
    from select_mapper_categorical_ok [OF Cons.prems(2) this]
    obtain mapper hm where sm: "select_mapper d col categorical h = (Inr mapper, hm)"
      by blast
    from select_mapper_frame [OF sm] Cons.prems(2)
    have pm: "col_stats_attr d < length (stats_dicts hm)" by simp
    have keep: "map_of (stats_dicts hm ! col_stats_attr d) k
                  = map_of (stats_dicts h ! col_stats_attr d) k" if "k \<noteq> col" for k
      using select_mapper_other [OF sm that] .
    have cols: "\<forall>col st. (col, st) \<in> set items \<longrightarrow> col \<in> set (columns (df d))"
      using Cons.prems(3) a by auto
    have stats: "\<forall>k. (k, categorical) \<in> set items \<longrightarrow>
           (\<exists>cs index value. map_of (stats_dicts hm ! col_stats_attr d) k = Some cs
              \<and> map_of cs COUNT = Some (Tuple index value) \<and> length value = length index)"
    proof (intro allI impI)
      fix k assume k: "(k, categorical) \<in> set items"
      with fresh have "k \<noteq> col" by (auto simp: image_iff)
      from keep [OF this] Cons.prems(4) k
      show "\<exists>cs index value. map_of (stats_dicts hm ! col_stats_attr d) k = Some cs
              \<and> map_of cs COUNT = Some (Tuple index value) \<and> length value = length index"
        by auto
    qed
    have "\<exists>c' v' h'. (c', other_stype v') \<in> set items
           \<and> to_tensor_frame_loop d items s0 hm = (Inl (NotImplementedError v'), h')" for s0
      using Cons.IH [OF dist pm cols stats mem] by blast
    with a categorical sm ser show ?thesis
      by (cases "Some col = target_col d") (auto simp: Let_def)
  qed
qed

text \<open>
  Whatever exception \<^verbatim>\<open>materialize\<close> raises, the \<^verbatim>\<open>Dataset\<close> objects are as before and the
  guarded properties keep raising.
\<close>

lemma failed_materialize_hidden:
  assumes d: "deref (datasets h) self = Some d"
    and unmat: "\<not> is_materialized_attr d"
    and res: "materialize ccs h self = (Inl e, h')"
  shows "datasets h' = datasets h \<and> \<not> is_materialized h' self
         \<and> tensor_frame h' self = (Inl (RuntimeError_requires_materialized ''tensor_frame''), h')
         \<and> col_stats h' self = (Inl (RuntimeError_requires_materialized ''col_stats''), h')"
proof -
  from materialize_failure_frame [OF res] have same: "datasets h' = datasets h" by simp
  with d unmat have nm: "\<not> is_materialized h' self" by (simp add: is_materialized_def)
  with same show ?thesis
    by (simp add: tensor_frame_def col_stats_def requires_post_materialization_def)
qed

text \<open>
  Claim C3. Take a data set, not yet materialized, with a column whose semantic type is
  neither numerical nor categorical, and a statistics calculator that behaves on the
  declared columns (\<open>calculator_ok\<close>). Then \<^verbatim>\<open>materialize\<close> raises \<^verbatim>\<open>NotImplementedError\<close>
  (the spec's UnsupportedSemanticType) for the semantic type of such a column, the
  \<^verbatim>\<open>Dataset\<close> object is left as it was, it is not materialized, and the properties
  \<^verbatim>\<open>tensor_frame\<close> and \<^verbatim>\<open>col_stats\<close> raise instead of showing a partial result.
\<close>

theorem materialize_unsupported_stype:
  assumes d: "deref (datasets h) self = Some d"
    and unmat: "\<not> is_materialized_attr d"
    and items: "deref (stype_dicts h) (col_to_stype d) = Some items"
    and dist: "distinct (map fst items)"
    and p: "col_stats_attr d < length (stats_dicts h)"
    and ok: "list_all (calculator_ok compute_col_stats (df d)) items"
    and bad: "(c, other_stype v) \<in> set items"
  shows "\<exists>c' v' h'.
           (c', other_stype v') \<in> set items
           \<and> materialize compute_col_stats h self = (Inl (NotImplementedError v'), h')
           \<and> datasets h' = datasets h
           \<and> \<not> is_materialized h' self
           \<and> tensor_frame h' self = (Inl (RuntimeError_requires_materialized ''tensor_frame''), h')
           \<and> col_stats h' self = (Inl (RuntimeError_requires_materialized ''col_stats''), h')"
proof -
  let ?p = "col_stats_attr d"
  from d unmat have nm: "\<not> is_materialized h self" by (simp add: is_materialized_def)
  have raised: "\<exists>c' v' h'. (c', other_stype v') \<in> set items
           \<and> materialize compute_col_stats h self = (Inl (NotImplementedError v'), h')"
    using fill_col_stats_ok [OF ok, of ?p h]
  proof
    assume "\<exists>c v h1. (c, other_stype v) \<in> set items
            \<and> fill_col_stats compute_col_stats (df d) ?p items h = (Inl (NotImplementedError v), h1)"
    then obtain c' v' h1 where "(c', other_stype v') \<in> set items"
      "fill_col_stats compute_col_stats (df d) ?p items h = (Inl (NotImplementedError v'), h1)"
      by blast
    with d nm items show ?thesis by (auto simp: materialize_def)
  next
    assume "\<exists>h1. fill_col_stats compute_col_stats (df d) ?p items h = (Inr (), h1)"
    then obtain h1 where s1: "fill_col_stats compute_col_stats (df d) ?p items h = (Inr (), h1)"
      by blast
    note f1 = fill_col_stats_frame [OF s1]
    from f1 p have p1: "?p < length (stats_dicts h1)" by simp
    have cols: "\<forall>col st. (col, st) \<in> set items \<longrightarrow> col \<in> set (columns (df d))"
    proof (intro allI impI)
      fix col st assume "(col, st) \<in> set items"
      from fill_col_stats_stored [OF s1 p dist this]
      show "col \<in> set (columns (df d))"
        by (auto simp: df_getitem_def split: if_splits)
    qed
    have stats: "\<forall>col. (col, categorical) \<in> set items \<longrightarrow>
           (\<exists>cs index value. map_of (stats_dicts h1 ! ?p) col = Some cs
              \<and> map_of cs COUNT = Some (Tuple index value) \<and> length value = length index)"
    proof (intro allI impI)
      fix col assume mem: "(col, categorical) \<in> set items"
      from fill_col_stats_stored [OF s1 p dist mem]
      obtain ser cs where ser: "df_getitem (df d) col = Inr ser"
        and cs: "compute_col_stats ser categorical = Inr cs"
        and stored: "map_of (stats_dicts h1 ! ?p) col = Some cs"
        by blast
      from ok mem have "calculator_ok compute_col_stats (df d) (col, categorical)"
        by (simp add: list_all_iff)
      with ser cs have "\<exists>index value. map_of cs COUNT = Some (Tuple index value)
                          \<and> length value = length index"
        by (auto simp: calculator_ok_def split: option.splits stat_value.splits)
      with stored
      show "\<exists>cs index value. map_of (stats_dicts h1 ! ?p) col = Some cs
              \<and> map_of cs COUNT = Some (Tuple index value) \<and> length value = length index"
        by blast
    qed
    from to_tensor_frame_loop_unsupported [OF dist p1 cols stats bad]
    obtain c' v' h2 where mem: "(c', other_stype v') \<in> set items"
      and loop: "to_tensor_frame_loop d items \<lparr>xs_dict = [], names_dict = [], y_local = None\<rparr> h1
                   = (Inl (NotImplementedError v'), h2)"
      by blast
    from d f1 have d1: "deref (datasets h1) self = Some d" by (simp add: deref_def)
    from items f1 have i1: "deref (stype_dicts h1) (col_to_stype d) = Some items"
      by (simp add: deref_def)
    from d1 i1 loop have "to_tensor_frame h1 self = (Inl (NotImplementedError v'), h2)"
      by (simp add: to_tensor_frame_def)
    with d nm items s1 have "materialize compute_col_stats h self = (Inl (NotImplementedError v'), h2)"
      by (simp add: materialize_def)
    with mem show ?thesis by blast
  qed
  then obtain c' v' h' where mem: "(c', other_stype v') \<in> set items"
    and res: "materialize compute_col_stats h self = (Inl (NotImplementedError v'), h')"
    by blast
  from failed_materialize_hidden [OF d unmat res] mem res show ?thesis by blast
qed

lemma example_unsupported_ok:
  "list_all (calculator_ok (spec_compute_col_stats (\<lambda>ser. [])) example_frame)
     example_unsupported_types"
  "list_all (calculator_ok example_lenient_stats example_frame) example_unsupported_types"
  by (simp_all add: example_unsupported_types_def calculator_ok_def example_frame_def
                    df_getitem_def spec_compute_col_stats_def example_lenient_stats_def
                    value_counts_def)

theorem materialize_unsupported_stype_witness:
  "(\<exists>h'. materialize (spec_compute_col_stats (\<lambda>ser. [])) example_unsupported 0
            = (Inl (NotImplementedError ''text''), h')
          \<and> \<not> is_materialized h' 0
          \<and> tensor_frame h' 0 = (Inl (RuntimeError_requires_materialized ''tensor_frame''), h')
          \<and> col_stats h' 0 = (Inl (RuntimeError_requires_materialized ''col_stats''), h'))
   \<and> (\<exists>h'. materialize example_lenient_stats example_unsupported 0
            = (Inl (NotImplementedError ''text''), h')
          \<and> \<not> is_materialized h' 0
          \<and> tensor_frame h' 0 = (Inl (RuntimeError_requires_materialized ''tensor_frame''), h')
          \<and> col_stats h' 0 = (Inl (RuntimeError_requires_materialized ''col_stats''), h'))"
proof -
  have d: "deref (datasets example_unsupported) 0 = Some example_dataset"
    by (simp add: example_unsupported_def deref_def)
  have unmat: "\<not> is_materialized_attr example_dataset"
    by (simp add: example_dataset_def)
  have items: "deref (stype_dicts example_unsupported) (col_to_stype example_dataset)
                 = Some example_unsupported_types"
    by (simp add: example_unsupported_def example_dataset_def deref_def)
  have dist: "distinct (map fst example_unsupported_types)"
    by (simp add: example_unsupported_types_def)
  have p: "col_stats_attr example_dataset < length (stats_dicts example_unsupported)"
    by (simp add: example_unsupported_def example_dataset_def)
  have frame: "df example_dataset = example_frame"
    by (simp add: example_dataset_def)
  have bad: "(''city'', other_stype ''text'') \<in> set example_unsupported_types"
    by (simp add: example_unsupported_types_def)
  have only: "v' = ''text''" if "(c', other_stype v') \<in> set example_unsupported_types" for c' v'
    using that by (auto simp: example_unsupported_types_def)
  from materialize_unsupported_stype
         [OF d unmat items dist p example_unsupported_ok(1) [folded frame] bad] only
  have a: "\<exists>h'. materialize (spec_compute_col_stats (\<lambda>ser. [])) example_unsupported 0
            = (Inl (NotImplementedError ''text''), h')
          \<and> \<not> is_materialized h' 0
          \<and> tensor_frame h' 0 = (Inl (RuntimeError_requires_materialized ''tensor_frame''), h')
          \<and> col_stats h' 0 = (Inl (RuntimeError_requires_materialized ''col_stats''), h')"
    by blast
  from materialize_unsupported_stype
         [OF d unmat items dist p example_unsupported_ok(2) [folded frame] bad] only
  have b: "\<exists>h'. materialize example_lenient_stats example_unsupported 0
            = (Inl (NotImplementedError ''text''), h')
          \<and> \<not> is_materialized h' 0
          \<and> tensor_frame h' 0 = (Inl (RuntimeError_requires_materialized ''tensor_frame''), h')
          \<and> col_stats h' 0 = (Inl (RuntimeError_requires_materialized ''col_stats''), h')"
    by blast
  from a b show ?thesis by blast
qed

subsection \<open>The tensor frame has the rows of the table\<close>

lemma forward_length: "length (forward m ser) = length ser"
  by (cases m) simp_all

lemma df_getitem_length:
  "df_getitem frame col = Inr ser \<Longrightarrow> length ser = df_len frame"
  by (auto simp: df_getitem_def df_len_def split: if_splits)

lemma set_alist_update:
  "set (AList.update k v al) \<subseteq> insert (k, v) (set al)"
  by (induction al) auto

lemma dd_append_all:
  assumes "list_all (\<lambda>p. list_all Q (snd p) \<and> snd p \<noteq> []) d"
    and "Q v"
  shows "list_all (\<lambda>p. list_all Q (snd p) \<and> snd p \<noteq> []) (dd_append d k v)"
proof (cases "map_of d k")
  case None
  with assms show ?thesis by (simp add: dd_append_def)
next
  case (Some l)
  then have "(k, l) \<in> set d" by (rule map_of_SomeD)
  with assms(1) have l: "list_all Q l" by (auto simp: list_all_iff)
  have "list_all Q (snd p) \<and> snd p \<noteq> []" if "p \<in> set (AList.update k (l @ [v]) d)" for p
  proof -
    from that set_alist_update [of k "l @ [v]" d]
    have "p = (k, l @ [v]) \<or> p \<in> set d" by auto
    with assms l show ?thesis by (auto simp: list_all_iff)
  qed
  with Some show ?thesis by (simp add: dd_append_def list_all_iff)
qed

lemma to_tensor_frame_loop_rows:
  assumes "to_tensor_frame_loop d items s h = (Inr s', h')"
    and "list_all (\<lambda>p. list_all (\<lambda>c. length c = df_len (df d)) (snd p) \<and> snd p \<noteq> []) (xs_dict s)"
    and "case y_local s of None \<Rightarrow> True | Some t \<Rightarrow> length t = df_len (df d)"
  shows "list_all (\<lambda>p. list_all (\<lambda>c. length c = df_len (df d)) (snd p) \<and> snd p \<noteq> []) (xs_dict s')
         \<and> (case y_local s' of None \<Rightarrow> True | Some t \<Rightarrow> length t = df_len (df d))"
  using assms
proof (induction items arbitrary: s h)
  case Nil
  then show ?case by simp
next
  case (Cons a items)
  obtain col st where a: "a = (col, st)" by (cases a)
  obtain rm hm where sm: "select_mapper d col st h = (rm, hm)"
    by (cases "select_mapper d col st h")
  from Cons.prems(1) a sm obtain mapper where rm: "rm = Inr mapper"
    by (cases rm) simp_all
  from Cons.prems(1) a sm rm obtain ser where ser: "df_getitem (df d) col = Inr ser"
    by (cases "df_getitem (df d) col") simp_all
  have out: "length (forward mapper ser) = df_len (df d)"
    using df_getitem_length [OF ser] by (simp add: forward_length)
  show ?case
  proof (cases "Some col = target_col d")
    case True
    with Cons.prems(1) a sm rm ser
    have run: "to_tensor_frame_loop d items (s\<lparr>y_local := Some (forward mapper ser)\<rparr>) hm
                 = (Inr s', h')" by simp
    show ?thesis
      by (rule Cons.IH [OF run]) (use Cons.prems(2) out in simp_all)
  next
    case False
    with Cons.prems(1) a sm rm ser
    have run: "to_tensor_frame_loop d items
                (s\<lparr>xs_dict := dd_append (xs_dict s) st (forward mapper ser),
                   names_dict := dd_append (names_dict s) st col\<rparr>) hm = (Inr s', h')"
      by simp
    show ?thesis
      by (rule Cons.IH [OF run]) (use Cons.prems(2,3) out dd_append_all in simp_all)
  qed
qed

lemma stack_all:
  assumes "list_all (\<lambda>p. list_all (\<lambda>c. length c = n) (snd p) \<and> snd p \<noteq> []) xd"
  shows "map_result (\<lambda>(st, xs). case stack xs of Inl e \<Rightarrow> Inl e | Inr x \<Rightarrow> Inr (st, x)) xd
           = Inr xd"
proof -
  have "(case p of (st, xs) \<Rightarrow> case stack xs of Inl e \<Rightarrow> Inl e | Inr x \<Rightarrow> Inr (st, x)) = Inr p"
    if "p \<in> set xd" for p
  proof -
    from that assms have all: "list_all (\<lambda>c. length c = n) (snd p)" and ne: "snd p \<noteq> []"
      by (auto simp: list_all_iff)
    from ne all have "length (hd (snd p)) = n" by (cases "snd p") simp_all
    with all ne have "stack (snd p) = Inr (snd p)"
      by (simp add: stack_def list_all_iff)
    then show ?thesis by (cases p) simp
  qed
  then have "map_result (\<lambda>(st, xs). case stack xs of Inl e \<Rightarrow> Inl e | Inr x \<Rightarrow> Inr (st, x)) xd
           = Inr (map (\<lambda>p. p) xd)"
    by (intro map_result_total) simp
  then show ?thesis by simp
qed

text \<open>
  The spec's invariant, established: after a \<^verbatim>\<open>materialize\<close> that returned on a data set not
  yet materialized, the data set is materialized, its table is the same, and its tensor
  frame has as many rows as the table.
\<close>

theorem materialize_tensor_rows:
  assumes d: "deref (datasets h) self = Some d"
    and unmat: "\<not> is_materialized_attr d"
    and res: "materialize ccs h self = (Inr r, h')"
  shows "\<exists>d' tf. deref (datasets h') self = Some d'
           \<and> is_materialized_attr d'
           \<and> df d' = df d
           \<and> tensor_frame_attr d' = Some tf
           \<and> tensor_rows (len h' self) tf"
proof -
  from materialize_first_run [OF d unmat res]
  obtain items u h1 s tf where
    loop: "to_tensor_frame_loop d items \<lparr>xs_dict = [], names_dict = [], y_local = None\<rparr> h1
               = (Inr s, h1\<lparr>stats_dicts := stats_dicts h'\<rparr>)"
    and stacked: "map_result (\<lambda>(st, xs). case stack xs of Inl e \<Rightarrow> Inl e | Inr x \<Rightarrow> Inr (st, x))
                 (xs_dict s) = Inr (x_dict tf)"
    and y: "tf_y tf = y_local s"
    and ds: "datasets h' = (datasets h)[self := d\<lparr>tensor_frame_attr := Some tf,
                                                 is_materialized_attr := True\<rparr>]"
    by blast
  from to_tensor_frame_loop_rows [OF loop]
  have inv: "list_all (\<lambda>p. list_all (\<lambda>c. length c = df_len (df d)) (snd p) \<and> snd p \<noteq> [])
               (xs_dict s)"
    and yl: "case y_local s of None \<Rightarrow> True | Some t \<Rightarrow> length t = df_len (df d)"
    by simp_all
  from stack_all [OF inv] stacked have xd: "x_dict tf = xs_dict s" by simp
  from d have self: "self < length (datasets h)"
    by (auto simp: deref_def split: if_splits)
  let ?d' = "d\<lparr>tensor_frame_attr := Some tf, is_materialized_attr := True\<rparr>"
  have d': "deref (datasets h') self = Some ?d'"
    using self by (simp add: ds deref_def)
  then have n: "len h' self = df_len (df d)" by (simp add: len_def)
  have "tensor_rows (len h' self) tf"
    using inv yl by (simp add: tensor_rows_def n xd y list_all_iff)
  with d' show ?thesis by simp
qed

lemma select_rows_length:
  assumes "select_rows xs sel = Inr ys"
    and "select_rows zs sel = Inr ws"
    and "length zs = length xs"
  shows "length ws = length ys"
  using assms
  by (cases sel) (auto simp: select_rows_def split: if_splits sum.splits)

lemma map_result_source:
  "map_result f xs = Inr ys \<Longrightarrow> y \<in> set ys \<Longrightarrow> \<exists>x. x \<in> set xs \<and> f x = Inr y"
  by (induction xs arbitrary: ys) (fastforce split: sum.splits)+

lemma tf_getitem_rows:
  assumes got: "tf_getitem tf sel = Inr tf'"
    and rows: "tensor_rows (length xs) tf"
    and sel: "select_rows xs sel = Inr ys"
  shows "tensor_rows (length ys) tf'"
proof -
  let ?f = "\<lambda>(st, x). case map_result (\<lambda>c. select_rows c sel) x of
                           Inl e \<Rightarrow> Inl e
                         | Inr x' \<Rightarrow> Inr (st, x')"
  from got obtain xd where xd: "map_result ?f (x_dict tf) = Inr xd"
    and x': "x_dict tf' = xd"
    and y': "case tf_y tf of None \<Rightarrow> tf_y tf' = None
             | Some t \<Rightarrow> (\<exists>t'. select_rows t sel = Inr t' \<and> tf_y tf' = Some t')"
    by (auto simp: tf_getitem_def split: sum.splits option.splits)
  have column: "length c' = length ys"
    if "select_rows c sel = Inr c'" "length c = length xs" for c c' :: "'a cell list"
    using select_rows_length [OF sel that] .
  have "list_all (\<lambda>c. length c = length ys) (snd q)" if q: "q \<in> set xd" for q
  proof -
    from map_result_source [OF xd q] obtain p where p: "p \<in> set (x_dict tf)"
      and fp: "?f p = Inr q"
      by blast
    from fp have inner: "map_result (\<lambda>c. select_rows c sel) (snd p) = Inr (snd q)"
      by (cases p) (auto split: sum.splits)
    from rows p have all: "list_all (\<lambda>c. length c = length xs) (snd p)"
      by (simp add: tensor_rows_def list_all_iff)
    show ?thesis
      unfolding list_all_iff
    proof
      fix c' assume "c' \<in> set (snd q)"
      from map_result_source [OF inner this] obtain c where "c \<in> set (snd p)"
        and "select_rows c sel = Inr c'"
        by blast
      with all column show "length c' = length ys" by (auto simp: list_all_iff)
    qed
  qed
  moreover have "case tf_y tf' of None \<Rightarrow> True | Some t' \<Rightarrow> length t' = length ys"
  proof (cases "tf_y tf")
    case None
    with y' show ?thesis by simp
  next
    case (Some t)
    with rows have "length t = length xs" by (simp add: tensor_rows_def)
    with y' Some column show ?thesis by auto
  qed
  ultimately show ?thesis by (simp add: tensor_rows_def x' list_all_iff)
qed

text \<open>
  The spec's invariant, preserved: the data set \<^verbatim>\<open>index_select\<close> returns is materialized and
  its tensor frame has as many rows as its table.
\<close>

theorem index_select_tensor_rows:
  assumes d: "deref (datasets h) self = Some d"
    and m: "is_materialized_attr d"
    and tf: "tensor_frame_attr d = Some tf"
    and rows: "tensor_rows (len h self) tf"
    and res: "index_select h self ix = (Inr r, h')"
  shows "\<exists>d' tf'. deref (datasets h') r = Some d'
           \<and> is_materialized_attr d'
           \<and> tensor_frame_attr d' = Some tf'
           \<and> tensor_rows (len h' r) tf'"
proof -
  from res have "index_select_body h self ix = (Inr r, h')"
    by (simp add: index_select_unguarded [OF d m])
  from index_select_body_returns [OF d this] tf
  obtain frame tf' where frame: "df_iloc (df d) (normalize_index (len h self) ix) = Inr frame"
    and tf': "tf_getitem tf (normalize_index (len h self) ix) = Inr tf'"
    and r: "r = length (datasets h)"
    and h': "h' = h\<lparr>datasets := datasets h @ [d\<lparr>df := frame, tensor_frame_attr := Some tf'\<rparr>]\<rparr>"
    by auto
  from d have n: "len h self = length (rows (df d))" by (simp add: len_def df_len_def)
  from df_iloc_rows [OF frame]
  have sel: "select_rows (rows (df d)) (normalize_index (len h self) ix) = Inr (rows frame)"
    by simp
  from tf_getitem_rows [OF tf' rows [unfolded n] sel]
  have "tensor_rows (length (rows frame)) tf'" .
  then have "tensor_rows (len h' r) tf'"
    by (simp add: r h' len_of_new df_len_def)
  moreover have "deref (datasets h') r = Some (d\<lparr>df := frame, tensor_frame_attr := Some tf'\<rparr>)"
    by (simp add: r h' deref_def)
  ultimately show ?thesis using m by simp
qed

text \<open>
  For the spec's calculator, the number of categories listed under \<^verbatim>\<open>COUNT\<close> is the number
  of distinct values of the column.
\<close>

lemma value_counts_length:
  "length (fst (value_counts ser)) = card (set ser)"
proof -
  have "length (remdups (rev ser)) = card (set (rev ser))"
    by (rule length_remdups_card_conv)
  then show ?thesis by (simp add: value_counts_def Let_def)
qed

theorem materialize_tensor_rows_witness:
  "materialize (spec_compute_col_stats (\<lambda>ser. [])) example_store 0 = (Inr 0, example_materialized)
   \<and> len example_materialized 0 = 3
   \<and> (\<exists>d' tf. deref (datasets example_materialized) 0 = Some d'
         \<and> is_materialized_attr d'
         \<and> tensor_frame_attr d' = Some tf
         \<and> tensor_rows 3 tf)"
proof -
  have d: "deref (datasets example_store) 0 = Some example_dataset"
    by (simp add: example_store_def deref_def)
  have unmat: "\<not> is_materialized_attr example_dataset"
    by (simp add: example_dataset_def)
  have res: "materialize (spec_compute_col_stats (\<lambda>ser. [])) example_store 0
               = (Inr 0, example_materialized)"
    by code_simp
  have n: "len example_materialized 0 = 3"
    by (simp add: len_def deref_def example_materialized_def example_dataset_def
                  example_frame_def df_len_def)
  from materialize_tensor_rows [OF d unmat res] res n show ?thesis
    by auto
qed

theorem index_select_tensor_rows_witness:
  "\<exists>r h' d' tf'.
     index_select example_materialized 0 (List_index [2, 0]) = (Inr r, h')
     \<and> len h' r = 2
     \<and> deref (datasets h') r = Some d'
     \<and> tensor_frame_attr d' = Some tf'
     \<and> tensor_rows 2 tf'"
proof -
  let ?d = "example_dataset\<lparr>tensor_frame_attr := Some example_tensor_frame,
                            is_materialized_attr := True\<rparr>"
  have d: "deref (datasets example_materialized) 0 = Some ?d"
    by (simp add: example_materialized_def deref_def)
  have m: "is_materialized_attr ?d" by simp
  have tf: "tensor_frame_attr ?d = Some example_tensor_frame" by simp
  have n: "len example_materialized 0 = 3"
    by (simp add: len_def d df_len_def example_dataset_def example_frame_def)
  have rows: "tensor_rows (len example_materialized 0) example_tensor_frame"
    by (simp add: n tensor_rows_def example_tensor_frame_def)
  have "fst (index_select example_materialized 0 (List_index [2, 0])) = Inr 1"
    by code_simp
  then obtain h' where res: "index_select example_materialized 0 (List_index [2, 0]) = (Inr 1, h')"
    by (cases "index_select example_materialized 0 (List_index [2, 0])") simp
  have two: "len (snd (index_select example_materialized 0 (List_index [2, 0]))) 1 = 2"
    by code_simp
  with res have l: "len h' 1 = 2" by simp
  from index_select_tensor_rows [OF d m tf rows res] l res show ?thesis
    by auto
qed

end
